theory Spec2Isabelle
  imports Main "HOL-Library.Sublist"
begin

section \<open>JavaScript values used by the handlers\<close>

text \<open>
  The route handlers and the composer page are TypeScript. Strings are modelled as
  \<open>string\<close>; one \<open>char\<close> stands for one UTF-16 code unit of the JavaScript string
  (code units below 256, which covers ASCII exactly). An optional field of a request
  body or of a client-side object is an \<open>option\<close>: \<open>None\<close> is JavaScript's
  \<open>undefined\<close> (the field is absent).

  Every presence test in the source (\<open>if (x)\<close>, \<open>!x\<close>, \<open>x ? a : b\<close>, \<open>x || y\<close>) is a
  truthiness test, so an absent field and an empty string are treated alike, and so are an
  absent flag and \<open>false\<close>.
\<close>

definition truthy :: "string option \<Rightarrow> bool" where
  "truthy v = (case v of None \<Rightarrow> False | Some s \<Rightarrow> s \<noteq> [])"

definition truthy_flag :: "bool option \<Rightarrow> bool" where
  "truthy_flag v = (case v of None \<Rightarrow> False | Some b \<Rightarrow> b)"

text \<open>\<open>a || b\<close> on optional strings: the left operand when it is truthy, else the right.\<close>

definition js_or :: "string option \<Rightarrow> string option \<Rightarrow> string option" where
  "js_or a b = (if truthy a then a else b)"

text \<open>
  The string that an optional string contributes where it is used as a string: to a
  template literal (\<open>`${x}`\<close>), to a concatenation or to \<open>JSON.stringify\<close>. The source
  only does this under a test that the value is truthy.
\<close>

definition interpolate :: "string option \<Rightarrow> string" where
  "interpolate v = (case v of None \<Rightarrow> ''undefined'' | Some s \<Rightarrow> s)"

text \<open>
  Values that are serialised with \<open>JSON.stringify\<close> or returned through
  \<open>NextResponse.json\<close>: an object is an association list of its own properties in
  insertion order.
\<close>

datatype json =
    JNull
  | JBool bool
  | JNum int
  | JStr string
  | JArr "json list"
  | JObj "(string \<times> json) list"

definition field :: "(string \<times> json) list \<Rightarrow> string \<Rightarrow> json option" where
  "field obj k = map_of obj k"

definition keys :: "(string \<times> json) list \<Rightarrow> string list" where
  "keys obj = map fst obj"

text \<open>
  What a handler does with a request: it either returns a response
  (\<open>NextResponse.json(body, { status })\<close>) without contacting anybody, or it issues its
  outbound call. The handling of the reply to that call is not part of this model.
\<close>

datatype 'c outcome =
    Respond nat json
  | Call 'c

definition error_body :: "string \<Rightarrow> json" where
  "error_body msg = JObj [(''error'', JStr msg)]"

section \<open>Post Publishing Service: \<open>POST /api/posts\<close>\<close>

text \<open>
  The body of a create-post request, after \<open>await request.json()\<close> and the
  destructuring \<open>const { content, accountIds, publishNow, scheduledFor, timezone,
  mediaUrls } = body\<close>. The fields are those of the declared \<open>CreatePostRequest\<close>
  interface plus \<open>mediaUrls\<close>; each may be absent on the wire. The field names carry the
  prefix \<open>rq_\<close> because \<open>content\<close> is also a field of the composer state below.
\<close>

record CreatePostRequest =
  rq_content :: "string option"
  rq_accountIds :: "string list option"
  rq_publishNow :: "bool option"
  rq_scheduledFor :: "string option"
  rq_timezone :: "string option"
  rq_mediaUrls :: "string list option"

text \<open>\<open>!xs || xs.length === 0\<close> on an optional array (an array itself is always truthy).\<close>

definition missing_or_empty :: "'a list option \<Rightarrow> bool" where
  "missing_or_empty v = (case v of None \<Rightarrow> True | Some xs \<Rightarrow> length xs = 0)"

definition strings :: "string list \<Rightarrow> json" where
  "strings xs = JArr (map JStr xs)"

text \<open>
  The object \<open>postData\<close> of the handler: it starts as \<open>{ platforms: accountIds }\<close> and
  receives \<open>post\<close>, \<open>mediaUrls\<close> and \<open>scheduleDate\<close> by three guarded assignments, in
  this order. The variable \<open>timezone\<close> is bound by the destructuring and not used again.
  (A property whose value is \<open>undefined\<close> is dropped by \<open>JSON.stringify\<close>; the handler
  builds the object only after it has checked that \<open>accountIds\<close> is there.)
\<close>

definition postData :: "CreatePostRequest \<Rightarrow> (string \<times> json) list" where
  "postData body =
     (let content = rq_content body;
          accountIds = rq_accountIds body;
          publishNow = rq_publishNow body;
          scheduledFor = rq_scheduledFor body;
          timezone = rq_timezone body;
          mediaUrls = rq_mediaUrls body
      in (case accountIds of
            Some ids \<Rightarrow> [(''platforms'', strings ids)]
          | None \<Rightarrow> [])
         @ (case content of
              Some c \<Rightarrow> if c \<noteq> [] then [(''post'', JStr c)] else []
            | None \<Rightarrow> [])
         @ (case mediaUrls of
              Some us \<Rightarrow> if length us > 0 then [(''mediaUrls'', strings us)] else []
            | None \<Rightarrow> [])
         @ (case scheduledFor of
              Some d \<Rightarrow> if \<not> truthy_flag publishNow \<and> d \<noteq> [] then [(''scheduleDate'', JStr d)] else []
            | None \<Rightarrow> []))"

text \<open>
  The handler up to its \<open>fetch\<close> of the provider's \<open>/post\<close> endpoint. \<open>api_key\<close> is
  \<open>process.env.AYRSHARE_API_KEY\<close>; the request is \<open>None\<close> when \<open>request.json()\<close>
  throws, which the handler's \<open>catch\<close> turns into the generic 500. \<open>Call p\<close> is the
  \<open>fetch\<close> whose body is \<open>JSON.stringify(p)\<close>.
\<close>

definition posts_POST :: "string option \<Rightarrow> CreatePostRequest option \<Rightarrow> (string \<times> json) list outcome" where
  "posts_POST api_key request =
     (if \<not> truthy api_key then Respond 500 (error_body ''Ayrshare API key not configured'')
      else case request of
        None \<Rightarrow> Respond 500 (error_body ''Failed to create post'')
      | Some body \<Rightarrow>
          if missing_or_empty (rq_accountIds body)
          then Respond 400 (error_body ''At least one platform is required'')
          else if \<not> truthy (rq_content body) \<and> missing_or_empty (rq_mediaUrls body)
          then Respond 400 (error_body ''Content or media is required'')
          else Call (postData body))"

section \<open>Caption Generation Service: \<open>POST /api/generate\<close>\<close>

text \<open>
  \<open>xs.join(sep)\<close> on an array of strings, and \<open>s.split(c)\<close> for a separator of one
  character (the result is never empty: \<open>"".split(",")\<close> is \<open>[""]\<close>).
\<close>

fun join :: "'a list \<Rightarrow> 'a list list \<Rightarrow> 'a list" where
  "join sep [] = []"
| "join sep [x] = x"
| "join sep (x # y # ys) = x @ sep @ join sep (y # ys)"

fun split_on :: "'a \<Rightarrow> 'a list \<Rightarrow> 'a list list" where
  "split_on c [] = [[]]"
| "split_on c (x # xs) =
     (if x = c then [] # split_on c xs
      else (case split_on c xs of [] \<Rightarrow> [[x]] | l # ls \<Rightarrow> (x # l) # ls))"

definition newline :: char where
  "newline = CHR 0x0A"

text \<open>
  The request body as the interface \<open>GenerateRequest\<close> declares it. \<open>platforms\<close> is
  declared required, and nothing checks it at run time: it is optional here like the others,
  because a body may leave it out.
\<close>

record GenerateRequest =
  mediaBase64 :: "string option"
  mediaMimeType :: "string option"
  mediaUrl :: "string option"
  platforms :: "string list option"
  tone :: "string option"
  additionalContext :: "string option"

definition platformList :: "string list \<Rightarrow> string" where
  "platformList ps = (if length ps > 0 then join '', '' ps else ''social media'')"

definition toneInstruction :: "string option \<Rightarrow> string" where
  "toneInstruction t =
     (if truthy t then ''Use a '' @ interpolate t @ '' tone.''
      else ''Use an engaging, professional tone.'')"

definition contextInstruction :: "string option \<Rightarrow> string" where
  "contextInstruction a =
     (if truthy a then ''Additional context: '' @ interpolate a else '''')"

text \<open>
  The template literal \<open>systemPrompt\<close>, written as its lines joined by line feeds (a line
  break inside a template literal is one line feed).
\<close>

definition systemPrompt_lines :: "string \<Rightarrow> string \<Rightarrow> string \<Rightarrow> string list" where
  "systemPrompt_lines pl ti ci =
     [''You are a social media content expert. Generate engaging post captions based on the provided media content.'',
      '''',
      ''Guidelines:'',
      ''- Create a caption that would perform well on '' @ pl,
      ''- '' @ ti,
      ''- Keep it concise but engaging (under 280 characters for Twitter/X compatibility)'',
      ''- Include relevant hashtags at the end (3-5 hashtags)'',
      ''- Include a call-to-action when appropriate'',
      ''- Make it feel authentic, not overly promotional'',
      ci,
      '''',
      ''Respond with ONLY the caption text including hashtags. No explanations or alternatives.'']"

definition systemPrompt :: "string \<Rightarrow> string \<Rightarrow> string \<Rightarrow> string" where
  "systemPrompt pl ti ci = join [newline] (systemPrompt_lines pl ti ci)"

text \<open>
  The parts of the user message: \<open>{ type: 'image_url', image_url: { url } }\<close> and
  \<open>{ type: 'text', text }\<close>.
\<close>

datatype content_part =
    Image_url string
  | Text_part string

definition video_text :: string where
  "video_text = ''Watch this video carefully, understand its content, any spoken words or text shown, and generate an engaging social media caption for it. The caption should relate directly to what happens in the video.''"

definition media_text :: string where
  "media_text = ''Analyze this media and generate an engaging social media caption for it.''"

text \<open>\<open>mediaMimeType?.startsWith('video/')\<close>, used as a condition.\<close>

definition isVideo :: "string option \<Rightarrow> bool" where
  "isVideo m = (case m of None \<Rightarrow> False | Some t \<Rightarrow> prefix ''video/'' t)"

definition user_content :: "GenerateRequest \<Rightarrow> content_part list" where
  "user_content body =
     (if truthy (mediaBase64 body) \<and> truthy (mediaMimeType body)
      then [Image_url (''data:'' @ interpolate (mediaMimeType body) @ '';base64,''
                       @ interpolate (mediaBase64 body))]
      else if truthy (mediaUrl body)
      then [Image_url (interpolate (mediaUrl body))]
      else [])
     @ [if isVideo (mediaMimeType body) then Text_part video_text else Text_part media_text]"

text \<open>
  The body of the chat-completion request: the model, the system message, the user
  message and \<open>max_tokens\<close> (the constant \<open>temperature: 0.7\<close> is left out).
\<close>

record gateway_call =
  gc_model :: string
  gc_system :: string
  gc_user :: "content_part list"
  gc_max_tokens :: nat

text \<open>
  The handler up to its \<open>fetch\<close> of the gateway. \<open>api_key\<close> is
  \<open>process.env.OPENROUTER_API_KEY\<close>; the request is \<open>None\<close> when \<open>request.json()\<close>
  throws. After the media check the first statement reads \<open>platforms.length\<close>, which throws
  a \<open>TypeError\<close> when \<open>platforms\<close> is \<open>undefined\<close>; the \<open>catch\<close> of the handler answers
  every exception with the generic 500.
\<close>

definition generate_POST :: "string option \<Rightarrow> GenerateRequest option \<Rightarrow> gateway_call outcome" where
  "generate_POST api_key request =
     (if \<not> truthy api_key then Respond 500 (error_body ''OpenRouter API key not configured'')
      else case request of
        None \<Rightarrow> Respond 500 (error_body ''Failed to generate content'')
      | Some body \<Rightarrow>
          if \<not> truthy (mediaBase64 body) \<and> \<not> truthy (mediaUrl body)
          then Respond 400 (error_body ''Either mediaBase64 or mediaUrl is required'')
          else (case platforms body of
                  None \<Rightarrow> Respond 500 (error_body ''Failed to generate content'')
                | Some ps \<Rightarrow>
                    Call \<lparr>gc_model = ''google/gemini-2.0-flash-001'',
                          gc_system = systemPrompt (platformList ps) (toneInstruction (tone body))
                                        (contextInstruction (additionalContext body)),
                          gc_user = user_content body,
                          gc_max_tokens = 500\<rparr>))"

section \<open>Media Upload URL Service: \<open>POST /api/media/presigned-url\<close>\<close>

text \<open>
  \<open>`${n}`\<close> for a number that is a non-negative integer: its decimal digits.
\<close>

fun show_nat :: "nat \<Rightarrow> string" where
  "show_nat n =
     (if n < 10 then [''0123456789'' ! n]
      else show_nat (n div 10) @ [''0123456789'' ! (n mod 10)])"

declare show_nat.simps [simp del]

text \<open>
  \<open>filename.replace(/[^a-zA-Z0-9.-]/g, '_')\<close>: the global flag makes it replace every
  code unit that the negated character class matches.
\<close>

definition in_class :: "char \<Rightarrow> bool" where
  "in_class c \<longleftrightarrow>
     c \<in> set ''abcdefghijklmnopqrstuvwxyzABCDEFGHIJKLMNOPQRSTUVWXYZ0123456789.-''"

definition sanitizedFilename :: "string \<Rightarrow> string" where
  "sanitizedFilename filename = map (\<lambda>c. if in_class c then c else CHR ''_'') filename"

text \<open>\<open>timestamp\<close> is \<open>Date.now()\<close>, the milliseconds since the epoch.\<close>

definition filePath :: "nat \<Rightarrow> string \<Rightarrow> string" where
  "filePath timestamp filename =
     ''uploads/'' @ show_nat timestamp @ ''-'' @ sanitizedFilename filename"

definition publicUrl :: "string \<Rightarrow> string \<Rightarrow> string" where
  "publicUrl supabase_url path = supabase_url @ ''/storage/v1/object/public/media/'' @ path"

record PresignRequest =
  filename :: "string option"
  contentType :: "string option"

text \<open>
  The handler up to \<open>supabase.storage.from('media').createSignedUploadUrl(filePath)\<close>:
  \<open>Call path\<close> is that call. \<open>supabase_url\<close> and \<open>service_key\<close> are the two environment
  variables, which \<open>createClient\<close> is taken to accept.
\<close>

definition presigned_url_POST ::
  "string option \<Rightarrow> string option \<Rightarrow> PresignRequest option \<Rightarrow> nat \<Rightarrow> string outcome" where
  "presigned_url_POST supabase_url service_key request timestamp =
     (if \<not> truthy supabase_url \<or> \<not> truthy service_key
      then Respond 500 (error_body ''Supabase not configured'')
      else case request of
        None \<Rightarrow> Respond 500 (error_body ''Failed to get presigned URL'')
      | Some body \<Rightarrow>
          if \<not> truthy (filename body) \<or> \<not> truthy (contentType body)
          then Respond 400 (error_body ''filename and contentType are required'')
          else Call (filePath timestamp (interpolate (filename body))))"

text \<open>
  What the storage client gives back: it throws, or it returns \<open>{ data, error }\<close> with
  an error (and its message) or with \<open>data.signedUrl\<close>.
\<close>

datatype signed_upload =
    Sign_throws
  | Sign_error string
  | Signed string

text \<open>The rest of the handler, for the path it asked for: the response it returns.\<close>

definition presigned_url_response :: "string option \<Rightarrow> string \<Rightarrow> signed_upload \<Rightarrow> nat \<times> json" where
  "presigned_url_response supabase_url path r =
     (case r of
        Sign_throws \<Rightarrow> (500, error_body ''Failed to get presigned URL'')
      | Sign_error message \<Rightarrow> (500, error_body (''Storage error: '' @ message))
      | Signed signedUrl \<Rightarrow>
          (200, JObj [(''uploadUrl'', JStr signedUrl),
                      (''publicUrl'', JStr (publicUrl (interpolate supabase_url) path))]))"

section \<open>Browser Composer Interface: the page component \<open>Home\<close>\<close>

text \<open>
  The interface \<open>Account\<close>. The property \<open>_id\<close> is \<open>acc_underscore_id\<close> here, and the
  other fields carry the prefix \<open>acc_\<close>. Every field is optional: the accounts the page
  receives are JSON from the account listing, which for one sets \<open>id\<close>, \<open>platform\<close> and
  \<open>name\<close> only.
\<close>

record Account =
  acc_underscore_id :: "string option"
  acc_id :: "string option"
  acc_platform :: "string option"
  acc_displayName :: "string option"
  acc_name :: "string option"
  acc_username :: "string option"
  acc_profilePicture :: "string option"
  acc_profilePictureUrl :: "string option"
  acc_isActive :: "bool option"

text \<open>
  The browser's \<open>File\<close> (its \<open>name\<close>, \<open>type\<close> and \<open>size\<close> in bytes) and the interface
  \<open>MediaFile\<close> of the page, with the prefix \<open>mf_\<close>.
\<close>

record File =
  file_name :: string
  file_type :: string
  file_size :: nat

record MediaFile =
  mf_file :: File
  mf_preview :: string
  mf_publicUrl :: "string option"
  mf_uploading :: bool
  mf_progress :: nat
  mf_error :: "string option"

datatype publish_mode = Now | Schedule

text \<open>The state of the component: one field for each \<open>useState\<close>.\<close>

record composer =
  accounts :: "Account list"
  selectedAccounts :: "string list"
  content :: string
  loading :: bool
  posting :: bool
  error :: "string option"
  success :: "string option"
  publishMode :: publish_mode
  scheduledDate :: string
  scheduledTime :: string
  mediaFiles :: "MediaFile list"
  generating :: bool

text \<open>
  The initial values of the \<open>useState\<close> calls, and the entry that \<open>handleFileSelect\<close>
  appends for a selected file and its preview URL.
\<close>

definition initial :: composer where
  "initial = \<lparr>accounts = [], selectedAccounts = [], content = '''', loading = True,
              posting = False, error = None, success = None, publishMode = Now,
              scheduledDate = '''', scheduledTime = '''', mediaFiles = [], generating = False\<rparr>"

definition selected_file :: "File \<Rightarrow> string \<Rightarrow> MediaFile" where
  "selected_file f preview =
     \<lparr>mf_file = f, mf_preview = preview, mf_publicUrl = None, mf_uploading = False,
      mf_progress = 0, mf_error = None\<rparr>"

subsection \<open>The account card\<close>

text \<open>\<open>account._id || account.id || ''\<close>\<close>

definition getAccountId :: "Account \<Rightarrow> string" where
  "getAccountId account =
     interpolate (js_or (js_or (acc_underscore_id account) (acc_id account)) (Some ''''))"

text \<open>\<open>account.displayName || account.name || account.username || 'Unknown'\<close>\<close>

definition accountName :: "Account \<Rightarrow> string" where
  "accountName account =
     interpolate (js_or (js_or (js_or (acc_displayName account) (acc_name account))
                               (acc_username account)) (Some ''Unknown''))"

text \<open>
  What the card shows as the avatar: the element \<open>img\<close> with its \<open>src\<close> and \<open>alt\<close>, or
  the round badge. The badge takes its colour class from \<open>account.platform\<close> (lower-cased
  and looked up in \<open>platformColors\<close>, with \<open>bg-gray-500\<close> as the default) and shows the
  first character of \<open>accountName\<close> in upper case; it is modelled by these two values.
\<close>

datatype avatar =
    Image string string
  | Initial_badge "string option" string

definition account_avatar :: "Account \<Rightarrow> avatar" where
  "account_avatar account =
     (if truthy (acc_profilePicture account)
      then Image (interpolate (acc_profilePicture account)) (accountName account)
      else Initial_badge (acc_platform account) (accountName account))"

subsection \<open>Caption generation: \<open>generateContent\<close>\<close>

text \<open>
  \<open>selectedAccounts.map(id => accounts.find(a => (a._id || a.id) === id)?.platform)
  .filter(Boolean)\<close>
\<close>

definition selectedPlatforms :: "composer \<Rightarrow> string list" where
  "selectedPlatforms s =
     map interpolate
       (filter truthy
          (map (\<lambda>id. case find (\<lambda>a. js_or (acc_underscore_id a) (acc_id a) = Some id) (accounts s) of
                        None \<Rightarrow> None
                      | Some account \<Rightarrow> acc_platform account)
               (selectedAccounts s)))"

definition maxSizeMB :: "File \<Rightarrow> nat" where
  "maxSizeMB f = (if prefix ''video/'' (file_type f) then 200 else 20)"

definition too_large_message :: "File \<Rightarrow> string" where
  "too_large_message f =
     (if prefix ''video/'' (file_type f) then ''Video'' else ''Image'')
     @ '' is too large (max '' @ show_nat (maxSizeMB f) @ ''MB). Please use a smaller file.''"

text \<open>
  \<open>generateContent\<close> up to its \<open>fetch\<close> of \<open>/api/generate\<close>: the state it leaves and the
  request body it posts, if it posts one. \<open>read\<close> is what the \<open>FileReader\<close> produces for the
  first file: the data URL, or \<open>None\<close> when it fails (the promise is then rejected with an
  event, which is not an \<open>Error\<close>). An exception thrown inside the \<open>try\<close> sets the error
  to its message, and \<open>finally\<close> clears \<open>generating\<close>. The base64 text is
  \<open>result.split(',')[1]\<close>, which is \<open>undefined\<close> when the data URL has no comma.
\<close>

definition generateContent :: "composer \<Rightarrow> string option \<Rightarrow> composer \<times> GenerateRequest option" where
  "generateContent s read =
     (case mediaFiles s of
        [] \<Rightarrow> (s\<lparr>error := Some ''Please add media first to generate content''\<rparr>, None)
      | mediaFile # _ \<Rightarrow>
          let s1 = s\<lparr>generating := True, error := None\<rparr>;
              f = mf_file mediaFile
          in if file_size f > maxSizeMB f * 1024 * 1024
             then (s1\<lparr>error := Some (too_large_message f), generating := False\<rparr>, None)
             else (case read of
                     None \<Rightarrow>
                       (s1\<lparr>error := Some ''Failed to generate content'', generating := False\<rparr>, None)
                   | Some result \<Rightarrow>
                       (s1, Some \<lparr>mediaBase64 = (case split_on CHR '','' result of
                                                     _ # base64 # _ \<Rightarrow> Some base64
                                                   | _ \<Rightarrow> None),
                                   mediaMimeType = Some (file_type f),
                                   mediaUrl = None,
                                   platforms = Some (selectedPlatforms s),
                                   tone = None,
                                   additionalContext = None\<rparr>)))"

subsection \<open>Submission: \<open>handleSubmit\<close>\<close>

text \<open>
  \<open>content.trim()\<close> removes white space and line terminators at both ends; among the
  code units below 256 these are tab, line feed, vertical tab, form feed, carriage return,
  space and no-break space.
\<close>

definition is_space :: "char \<Rightarrow> bool" where
  "is_space c \<longleftrightarrow> c \<in> set [CHR 0x09, CHR 0x0A, CHR 0x0B, CHR 0x0C, CHR 0x0D, CHR 0x20, CHR 0xA0]"

definition trim :: "string \<Rightarrow> string" where
  "trim s = rev (dropWhile is_space (rev (dropWhile is_space s)))"

text \<open>The five constants that \<open>handleSubmit\<close> computes first.\<close>

definition hasContent :: "composer \<Rightarrow> bool" where
  "hasContent s \<longleftrightarrow> length (trim (content s)) > 0"

definition uploadedMedia :: "composer \<Rightarrow> MediaFile list" where
  "uploadedMedia s =
     filter (\<lambda>mf. truthy (mf_publicUrl mf) \<and> \<not> mf_uploading mf \<and> \<not> truthy (mf_error mf))
       (mediaFiles s)"

definition hasMedia :: "composer \<Rightarrow> bool" where
  "hasMedia s \<longleftrightarrow> length (uploadedMedia s) > 0"

definition isUploading :: "composer \<Rightarrow> bool" where
  "isUploading s \<longleftrightarrow> list_ex mf_uploading (mediaFiles s)"

definition hasUploadErrors :: "composer \<Rightarrow> bool" where
  "hasUploadErrors s \<longleftrightarrow> list_ex (\<lambda>mf. truthy (mf_error mf)) (mediaFiles s)"

text \<open>
  The object \<open>postData\<close> that \<open>handleSubmit\<close> builds. \<open>timeZone\<close> is
  \<open>Intl.DateTimeFormat().resolvedOptions().timeZone\<close>. An \<open>undefined\<close> element of an array
  would be serialised as \<open>null\<close>.
\<close>

definition submit_postData :: "composer \<Rightarrow> string \<Rightarrow> (string \<times> json) list" where
  "submit_postData s timeZone =
     [(''accountIds'', strings (selectedAccounts s))]
     @ (if hasContent s then [(''content'', JStr (trim (content s)))] else [])
     @ (if hasMedia s
        then [(''mediaUrls'',
               JArr (map (\<lambda>mf. case mf_publicUrl mf of Some u \<Rightarrow> JStr u | None \<Rightarrow> JNull)
                         (uploadedMedia s)))]
        else [])
     @ (if publishMode s = Now then [(''publishNow'', JBool True)]
        else [(''scheduledFor'', JStr (scheduledDate s @ ''T'' @ scheduledTime s @ '':00'')),
              (''timezone'', JStr timeZone)])"

text \<open>
  \<open>handleSubmit\<close> up to its \<open>fetch\<close> of \<open>/api/posts\<close>: the state it leaves and the body
  it posts, if it posts one. It clears the error and the success message, then runs its
  checks one after the other, each of which sets the error and returns.
\<close>

definition handleSubmit :: "composer \<Rightarrow> string \<Rightarrow> composer \<times> (string \<times> json) list option" where
  "handleSubmit s timeZone =
     (let s0 = s\<lparr>error := None, success := None\<rparr> in
      if isUploading s
      then (s0\<lparr>error := Some ''Please wait for media uploads to complete''\<rparr>, None)
      else if \<not> hasContent s \<and> \<not> hasMedia s
      then (s0\<lparr>error := Some ''Please enter some content or upload media''\<rparr>, None)
      else if hasUploadErrors s \<and> \<not> hasContent s
      then (s0\<lparr>error := Some ''Some media failed to upload. Please remove failed items or add text content.''\<rparr>, None)
      else if length (selectedAccounts s) = 0
      then (s0\<lparr>error := Some ''Please select at least one account''\<rparr>, None)
      else if publishMode s = Schedule \<and> (scheduledDate s = [] \<or> scheduledTime s = [])
      then (s0\<lparr>error := Some ''Please select a date and time for scheduling''\<rparr>, None)
      else (s0\<lparr>posting := True\<rparr>, Some (submit_postData s timeZone)))"

subsection \<open>The validation order as the specification words it\<close>

text \<open>
  The five checks of the specification, in its order, each with the message it blocks
  with. A media file is in the uploaded state when it has a public URL, is not uploading and
  has no error; it is in an error state when it has an error message.
\<close>

definition spec_uploaded :: "MediaFile \<Rightarrow> bool" where
  "spec_uploaded mf \<longleftrightarrow> truthy (mf_publicUrl mf) \<and> \<not> mf_uploading mf \<and> \<not> truthy (mf_error mf)"

definition spec_checks :: "((composer \<Rightarrow> bool) \<times> string) list" where
  "spec_checks =
     [(\<lambda>s. \<exists>mf\<in>set (mediaFiles s). mf_uploading mf,
       ''Please wait for media uploads to complete''),
      (\<lambda>s. trim (content s) = [] \<and> \<not> (\<exists>mf\<in>set (mediaFiles s). spec_uploaded mf),
       ''Please enter some content or upload media''),
      (\<lambda>s. (\<exists>mf\<in>set (mediaFiles s). truthy (mf_error mf)) \<and> trim (content s) = [],
       ''Some media failed to upload. Please remove failed items or add text content.''),
      (\<lambda>s. selectedAccounts s = [],
       ''Please select at least one account''),
      (\<lambda>s. publishMode s = Schedule \<and> (scheduledDate s = [] \<or> scheduledTime s = []),
       ''Please select a date and time for scheduling'')]"

text \<open>The message of the first check in the list that fails, if one fails.\<close>

definition spec_first_failing :: "composer \<Rightarrow> string option" where
  "spec_first_failing s = map_option snd (find (\<lambda>(failing, message). failing s) spec_checks)"

section \<open>Properties of the Post Publishing Service\<close>

lemma posts_POST_valid:
  assumes "truthy api_key" "\<not> missing_or_empty (rq_accountIds body)"
    and "truthy (rq_content body) \<or> \<not> missing_or_empty (rq_mediaUrls body)"
  shows "posts_POST api_key (Some body) = Call (postData body)"
  using assms by (auto simp: posts_POST_def)

lemma field_postData_platforms:
  "rq_accountIds body = Some ids \<Longrightarrow> field (postData body) ''platforms'' = Some (strings ids)"
  by (simp add: postData_def field_def)

lemma field_postData_post:
  "rq_accountIds body = Some ids \<Longrightarrow>
   field (postData body) ''post'' = (if truthy (rq_content body) then map_option JStr (rq_content body) else None)"
  by (simp add: postData_def field_def truthy_def split: option.splits)

lemma field_postData_scheduleDate:
  "rq_accountIds body = Some ids \<Longrightarrow>
   field (postData body) ''scheduleDate'' =
     (if \<not> truthy_flag (rq_publishNow body) \<and> truthy (rq_scheduledFor body)
      then map_option JStr (rq_scheduledFor body) else None)"
  by (simp add: postData_def field_def truthy_def split: option.splits)

text \<open>
  C1. For every create-post request with non-empty \<open>accountIds\<close> and with content or
  non-empty \<open>mediaUrls\<close> (and the provider key configured), the handler sends a payload
  to the provider in which \<open>platforms\<close> is \<open>accountIds\<close>, \<open>post\<close> is there exactly
  when \<open>content\<close> is truthy and is then \<open>content\<close>, and \<open>scheduleDate\<close> is there exactly
  when \<open>publishNow\<close> is falsy and \<open>scheduledFor\<close> is present (truthy, as the handler tests
  it: there and not the empty string), and is then \<open>scheduledFor\<close> unchanged. In
  particular \<open>{ accountIds: ["twitter"], content: "hello", publishNow: true }\<close> gives
  exactly \<open>{ platforms: ["twitter"], post: "hello" }\<close>, with no \<open>scheduleDate\<close>.
\<close>

theorem create_post_payload:
  assumes "truthy api_key"
  shows "(rq_accountIds body = Some ids \<and> ids \<noteq> [] \<and>
          (truthy (rq_content body) \<or> (\<exists>us. rq_mediaUrls body = Some us \<and> us \<noteq> []))
          \<longrightarrow> (\<exists>p. posts_POST api_key (Some body) = Call p
                 \<and> field p ''platforms'' = Some (strings ids)
                 \<and> (truthy (rq_content body) \<longrightarrow> field p ''post'' = map_option JStr (rq_content body))
                 \<and> (\<not> truthy (rq_content body) \<longrightarrow> field p ''post'' = None)
                 \<and> (field p ''scheduleDate'' \<noteq> None
                      \<longleftrightarrow> \<not> truthy_flag (rq_publishNow body) \<and> truthy (rq_scheduledFor body))
                 \<and> (\<not> truthy_flag (rq_publishNow body) \<and> truthy (rq_scheduledFor body)
                      \<longrightarrow> field p ''scheduleDate'' = map_option JStr (rq_scheduledFor body))))
       \<and> posts_POST api_key
            (Some \<lparr>rq_content = Some ''hello'', rq_accountIds = Some [''twitter''],
                   rq_publishNow = Some True, rq_scheduledFor = None, rq_timezone = None,
                   rq_mediaUrls = None\<rparr>)
           = Call [(''platforms'', JArr [JStr ''twitter'']), (''post'', JStr ''hello'')]"
proof (intro conjI impI)
  assume h: "rq_accountIds body = Some ids \<and> ids \<noteq> [] \<and>
          (truthy (rq_content body) \<or> (\<exists>us. rq_mediaUrls body = Some us \<and> us \<noteq> []))"
  then have ids: "rq_accountIds body = Some ids" and ne: "\<not> missing_or_empty (rq_accountIds body)"
    and cm: "truthy (rq_content body) \<or> \<not> missing_or_empty (rq_mediaUrls body)"
    by (auto simp: missing_or_empty_def)
  have sent: "posts_POST api_key (Some body) = Call (postData body)"
    using assms ne cm by (rule posts_POST_valid)
  have sd: "field (postData body) ''scheduleDate'' \<noteq> None
      \<longleftrightarrow> \<not> truthy_flag (rq_publishNow body) \<and> truthy (rq_scheduledFor body)"
    using field_postData_scheduleDate [OF ids] by (auto simp: truthy_def split: option.splits)
  show "\<exists>p. posts_POST api_key (Some body) = Call p
                 \<and> field p ''platforms'' = Some (strings ids)
                 \<and> (truthy (rq_content body) \<longrightarrow> field p ''post'' = map_option JStr (rq_content body))
                 \<and> (\<not> truthy (rq_content body) \<longrightarrow> field p ''post'' = None)
                 \<and> (field p ''scheduleDate'' \<noteq> None
                      \<longleftrightarrow> \<not> truthy_flag (rq_publishNow body) \<and> truthy (rq_scheduledFor body))
                 \<and> (\<not> truthy_flag (rq_publishNow body) \<and> truthy (rq_scheduledFor body)
                      \<longrightarrow> field p ''scheduleDate'' = map_option JStr (rq_scheduledFor body))"
    using sent field_postData_platforms [OF ids] field_postData_post [OF ids]
      field_postData_scheduleDate [OF ids] sd
    by simp
next
  show "posts_POST api_key
            (Some \<lparr>rq_content = Some ''hello'', rq_accountIds = Some [''twitter''],
                   rq_publishNow = Some True, rq_scheduledFor = None, rq_timezone = None,
                   rq_mediaUrls = None\<rparr>)
           = Call [(''platforms'', JArr [JStr ''twitter'']), (''post'', JStr ''hello'')]"
    using assms
    by (simp add: posts_POST_def postData_def missing_or_empty_def truthy_def truthy_flag_def
        strings_def)
qed

text \<open>
  The scheduled request of the specification,
  \<open>{ accountIds: ["facebook"], content: "hi", publishNow: false,
  scheduledFor: "2025-01-01T10:00:00" }\<close>, satisfies the hypotheses and carries
  \<open>scheduleDate: "2025-01-01T10:00:00"\<close>.
\<close>

theorem create_post_payload_witness:
  "truthy (Some ''key'')
   \<and> (\<exists>p. posts_POST (Some ''key'')
            (Some \<lparr>rq_content = Some ''hi'', rq_accountIds = Some [''facebook''],
                   rq_publishNow = Some False, rq_scheduledFor = Some ''2025-01-01T10:00:00'',
                   rq_timezone = Some ''Europe/Paris'', rq_mediaUrls = None\<rparr>) = Call p
        \<and> field p ''platforms'' = Some (JArr [JStr ''facebook''])
        \<and> field p ''post'' = Some (JStr ''hi'')
        \<and> field p ''scheduleDate'' = Some (JStr ''2025-01-01T10:00:00''))"
proof -
  have k: "truthy (Some ''key'')" by (simp add: truthy_def)
  show ?thesis
    using k create_post_payload [OF k, of
        "\<lparr>rq_content = Some ''hi'', rq_accountIds = Some [''facebook''],
          rq_publishNow = Some False, rq_scheduledFor = Some ''2025-01-01T10:00:00'',
          rq_timezone = Some ''Europe/Paris'', rq_mediaUrls = None\<rparr>" "[''facebook'']"]
    by (auto simp add: truthy_def truthy_flag_def strings_def)
qed

lemma keys_postData:
  "set (keys (postData body)) \<subseteq> {''platforms'', ''post'', ''mediaUrls'', ''scheduleDate''}"
  by (auto simp: postData_def keys_def split: option.splits if_splits)

lemma postData_timezone: "postData (body\<lparr>rq_timezone := tz\<rparr>) = postData body"
  by (simp add: postData_def)

text \<open>
  C3. The \<open>timezone\<close> field of a create-post request is read and never forwarded:
  changing, adding or removing it changes nothing in what the handler does, and whenever a
  payload is sent to the provider its fields are \<open>platforms\<close> and possibly \<open>post\<close>,
  \<open>mediaUrls\<close> and \<open>scheduleDate\<close>, never \<open>timezone\<close>.
\<close>

theorem timezone_not_forwarded:
  "posts_POST api_key (Some (body\<lparr>rq_timezone := tz\<rparr>)) = posts_POST api_key (Some body)
   \<and> (posts_POST api_key request = Call p \<longrightarrow>
        set (keys p) \<subseteq> {''platforms'', ''post'', ''mediaUrls'', ''scheduleDate''}
        \<and> ''platforms'' \<in> set (keys p)
        \<and> ''timezone'' \<notin> set (keys p)
        \<and> field p ''timezone'' = None)"
proof (intro conjI impI)
  show "posts_POST api_key (Some (body\<lparr>rq_timezone := tz\<rparr>)) = posts_POST api_key (Some body)"
    by (simp add: posts_POST_def postData_timezone)
next
  assume sent: "posts_POST api_key request = Call p"
  then obtain b where b: "request = Some b" "p = postData b"
    and ids: "\<not> missing_or_empty (rq_accountIds b)"
    by (auto simp: posts_POST_def split: if_splits option.splits)
  show sub: "set (keys p) \<subseteq> {''platforms'', ''post'', ''mediaUrls'', ''scheduleDate''}"
    using b keys_postData by simp
  show "''platforms'' \<in> set (keys p)"
    using b ids by (auto simp: postData_def keys_def missing_or_empty_def split: option.splits)
  show notin: "''timezone'' \<notin> set (keys p)"
    using sub by auto
  show "field p ''timezone'' = None"
    using notin by (simp add: field_def keys_def map_of_eq_None_iff)
qed

theorem timezone_not_forwarded_witness:
  "posts_POST (Some ''key'')
      (Some \<lparr>rq_content = Some ''hi'', rq_accountIds = Some [''facebook''],
             rq_publishNow = Some False, rq_scheduledFor = Some ''2025-01-01T10:00:00'',
             rq_timezone = Some ''Europe/Paris'', rq_mediaUrls = None\<rparr>)
     = Call [(''platforms'', JArr [JStr ''facebook'']), (''post'', JStr ''hi''),
             (''scheduleDate'', JStr ''2025-01-01T10:00:00'')]
   \<and> ''timezone'' \<notin> set (keys [(''platforms'', JArr [JStr ''facebook'']), (''post'', JStr ''hi''),
             (''scheduleDate'', JStr ''2025-01-01T10:00:00'')])"
proof -
  have sent: "posts_POST (Some ''key'')
      (Some \<lparr>rq_content = Some ''hi'', rq_accountIds = Some [''facebook''],
             rq_publishNow = Some False, rq_scheduledFor = Some ''2025-01-01T10:00:00'',
             rq_timezone = Some ''Europe/Paris'', rq_mediaUrls = None\<rparr>)
     = Call [(''platforms'', JArr [JStr ''facebook'']), (''post'', JStr ''hi''),
             (''scheduleDate'', JStr ''2025-01-01T10:00:00'')]"
    by (simp add: posts_POST_def postData_def missing_or_empty_def truthy_def truthy_flag_def
        strings_def)
  show ?thesis
    using sent timezone_not_forwarded [of "Some ''key''" _ _
        "Some \<lparr>rq_content = Some ''hi'', rq_accountIds = Some [''facebook''],
             rq_publishNow = Some False, rq_scheduledFor = Some ''2025-01-01T10:00:00'',
             rq_timezone = Some ''Europe/Paris'', rq_mediaUrls = None\<rparr>"
        "[(''platforms'', JArr [JStr ''facebook'']), (''post'', JStr ''hi''),
             (''scheduleDate'', JStr ''2025-01-01T10:00:00'')]"]
    by blast
qed

section \<open>Properties of the Caption Generation Service\<close>

lemma split_on_no_sep: "c \<notin> set a \<Longrightarrow> split_on c a = [a]"
  by (induction a) auto

lemma split_on_append_sep: "c \<notin> set a \<Longrightarrow> split_on c (a @ c # b) = a # split_on c b"
  by (induction a) auto

lemma split_on_join:
  "ls \<noteq> [] \<Longrightarrow> \<forall>l\<in>set ls. c \<notin> set l \<Longrightarrow> split_on c (join [c] ls) = ls"
proof (induction "[c]" ls rule: join.induct)
  case 1
  then show ?case by simp
next
  case (2 x)
  then show ?case by (simp add: split_on_no_sep)
next
  case (3 x y ys)
  then show ?case by (simp add: split_on_append_sep)
qed

lemma sublist_join: "l \<in> set ls \<Longrightarrow> sublist l (join sep ls)"
proof (induction sep ls rule: join.induct)
  case (1 sep)
  then show ?case by simp
next
  case (2 sep x)
  then show ?case by simp
next
  case (3 sep x y ys)
  show ?case
  proof (cases "l = x")
    case True
    then show ?thesis by simp
  next
    case False
    with 3 have "sublist l (join sep (y # ys))" by simp
    then have "sublist l ((x @ sep) @ join sep (y # ys))"
      by (rule sublist_order.order.trans) (rule sublist_append_leftI)
    then show ?thesis by simp
  qed
qed

lemma no_newline_join:
  "\<forall>p\<in>set ps. newline \<notin> set p \<Longrightarrow> newline \<notin> set (join '', '' ps)"
  by (induction "'', ''" ps rule: join.induct) (auto simp: newline_def)

lemma generate_POST_valid:
  assumes "truthy api_key" "truthy (mediaBase64 body) \<or> truthy (mediaUrl body)"
    and "platforms body = Some ps"
  shows "generate_POST api_key (Some body) =
     Call \<lparr>gc_model = ''google/gemini-2.0-flash-001'',
           gc_system = systemPrompt (platformList ps) (toneInstruction (tone body))
                         (contextInstruction (additionalContext body)),
           gc_user = user_content body,
           gc_max_tokens = 500\<rparr>"
  using assms by (auto simp: generate_POST_def)

lemma sublist_trans: "sublist a b \<Longrightarrow> sublist b c \<Longrightarrow> sublist a c"
  by (rule sublist_order.order.trans)

lemma sublist_platform_line:
  "sublist (''- Create a caption that would perform well on '' @ pl) (systemPrompt pl ti ci)"
  unfolding systemPrompt_def by (rule sublist_join) (simp add: systemPrompt_lines_def)

lemma sublist_tone_line: "sublist ti (systemPrompt pl ti ci)"
proof -
  have "sublist (''- '' @ ti) (systemPrompt pl ti ci)"
    unfolding systemPrompt_def by (rule sublist_join) (simp add: systemPrompt_lines_def)
  moreover have "sublist ti (''- '' @ ti)" by (rule sublist_append_leftI)
  ultimately show ?thesis by (rule sublist_trans[rotated])
qed

lemma sublist_context_line: "sublist ci (systemPrompt pl ti ci)"
  unfolding systemPrompt_def by (rule sublist_join) (simp add: systemPrompt_lines_def)

lemma lines_systemPrompt:
  assumes "newline \<notin> set pl" "newline \<notin> set ti" "newline \<notin> set ci"
  shows "split_on newline (systemPrompt pl ti ci) = systemPrompt_lines pl ti ci"
  unfolding systemPrompt_def
proof (rule split_on_join)
  show "systemPrompt_lines pl ti ci \<noteq> []" by (simp add: systemPrompt_lines_def)
  show "\<forall>l\<in>set (systemPrompt_lines pl ti ci). newline \<notin> set l"
    using assms by (simp add: systemPrompt_lines_def newline_def)
qed

lemma context_line_iff:
  "(\<exists>l\<in>set (systemPrompt_lines pl ti ci). prefix ''Additional context: '' l)
     \<longleftrightarrow> prefix ''Additional context: '' ci"
  by (simp add: systemPrompt_lines_def)

lemma split_on_nonempty: "split_on c a \<noteq> []"
  by (induction a) (auto split: list.splits)

lemma split_on_append_sep_any: "split_on c (a @ c # b) = split_on c a @ split_on c b"
proof (induction a)
  case Nil
  then show ?case by simp
next
  case (Cons x a)
  obtain l ls where "split_on c a = l # ls"
    using split_on_nonempty [of c a] by (cases "split_on c a") auto
  with Cons show ?case by simp
qed

lemma split_on_join_concat:
  "ls \<noteq> [] \<Longrightarrow> split_on c (join [c] ls) = concat (map (split_on c) ls)"
proof (induction "[c]" ls rule: join.induct)
  case 1
  then show ?case by simp
next
  case (2 x)
  then show ?case by simp
next
  case (3 x y ys)
  then show ?case by (simp add: split_on_append_sep_any)
qed

lemma line_of_part:
  assumes "l \<in> set ls" and "x \<in> set (split_on c l)"
  shows "x \<in> set (split_on c (join [c] ls))"
proof -
  have "ls \<noteq> []" using assms(1) by auto
  then show ?thesis
    using assms by (auto simp: split_on_join_concat)
qed

lemma injected_line:
  "''Additional context: zzz''
       \<in> set (split_on newline
                (systemPrompt (''a'' @ [newline] @ ''Additional context: zzz'') ti ci))"
  unfolding systemPrompt_def
proof (rule line_of_part)
  show "''- Create a caption that would perform well on '' @ ''a'' @ [newline] @ ''Additional context: zzz''
      \<in> set (systemPrompt_lines (''a'' @ [newline] @ ''Additional context: zzz'') ti ci)"
    by (simp add: systemPrompt_lines_def)
  have "split_on newline (''- Create a caption that would perform well on a'' @ newline # ''Additional context: zzz'')
      = split_on newline ''- Create a caption that would perform well on a''
        @ split_on newline ''Additional context: zzz''"
    by (rule split_on_append_sep_any)
  moreover have "split_on newline ''Additional context: zzz'' = [''Additional context: zzz'']"
    by (rule split_on_no_sep) (simp add: newline_def)
  ultimately show "''Additional context: zzz''
      \<in> set (split_on newline (''- Create a caption that would perform well on '' @ ''a'' @ [newline] @ ''Additional context: zzz''))"
    by simp
qed

lemma suffix_context_slot:
  "suffix (''- Make it feel authentic, not overly promotional'' @ [newline] @ ci @ [newline, newline]
           @ ''Respond with ONLY the caption text including hashtags. No explanations or alternatives.'')
     (systemPrompt pl ti ci)"
proof (rule suffixI)
  show "systemPrompt pl ti ci =
      (join [newline]
        [''You are a social media content expert. Generate engaging post captions based on the provided media content.'',
         '''',
         ''Guidelines:'',
         ''- Create a caption that would perform well on '' @ pl,
         ''- '' @ ti,
         ''- Keep it concise but engaging (under 280 characters for Twitter/X compatibility)'',
         ''- Include relevant hashtags at the end (3-5 hashtags)'',
         ''- Include a call-to-action when appropriate''] @ [newline])
      @ (''- Make it feel authentic, not overly promotional'' @ [newline] @ ci @ [newline, newline]
           @ ''Respond with ONLY the caption text including hashtags. No explanations or alternatives.'')"
    by (simp add: systemPrompt_def systemPrompt_lines_def)
qed

text \<open>
  C5, as stated, fails. The platform keys and the tone go into the template as they come.
  A request that provides no \<open>additionalContext\<close> and whose one platform key is \<open>a\<close>, a
  line feed and \<open>Additional context: zzz\<close> gets a prompt that has the line
  \<open>Additional context: zzz\<close>.
\<close>

theorem context_line_injection:
  "additionalContext
      \<lparr>mediaBase64 = Some ''aGk='', mediaMimeType = Some ''image/png'', mediaUrl = None,
       platforms = Some [''a'' @ [newline] @ ''Additional context: zzz''], tone = None,
       additionalContext = None\<rparr> = None
   \<and> generate_POST (Some ''key'')
        (Some \<lparr>mediaBase64 = Some ''aGk='', mediaMimeType = Some ''image/png'', mediaUrl = None,
               platforms = Some [''a'' @ [newline] @ ''Additional context: zzz''], tone = None,
               additionalContext = None\<rparr>)
      = Call \<lparr>gc_model = ''google/gemini-2.0-flash-001'',
              gc_system = systemPrompt (''a'' @ [newline] @ ''Additional context: zzz'')
                            ''Use an engaging, professional tone.'' '''',
              gc_user = [Image_url ''data:image/png;base64,aGk='',
                         Text_part ''Analyze this media and generate an engaging social media caption for it.''],
              gc_max_tokens = 500\<rparr>
   \<and> ''Additional context: zzz''
       \<in> set (split_on newline
                (systemPrompt (''a'' @ [newline] @ ''Additional context: zzz'')
                   ''Use an engaging, professional tone.'' ''''))
   \<and> sublist ''Additional context: zzz''
        (systemPrompt (''a'' @ [newline] @ ''Additional context: zzz'')
           ''Use an engaging, professional tone.'' '''')"
proof (intro conjI)
  show "additionalContext
      \<lparr>mediaBase64 = Some ''aGk='', mediaMimeType = Some ''image/png'', mediaUrl = None,
       platforms = Some [''a'' @ [newline] @ ''Additional context: zzz''], tone = None,
       additionalContext = None\<rparr> = None"
    by simp
  show "generate_POST (Some ''key'')
        (Some \<lparr>mediaBase64 = Some ''aGk='', mediaMimeType = Some ''image/png'', mediaUrl = None,
               platforms = Some [''a'' @ [newline] @ ''Additional context: zzz''], tone = None,
               additionalContext = None\<rparr>)
      = Call \<lparr>gc_model = ''google/gemini-2.0-flash-001'',
              gc_system = systemPrompt (''a'' @ [newline] @ ''Additional context: zzz'')
                            ''Use an engaging, professional tone.'' '''',
              gc_user = [Image_url ''data:image/png;base64,aGk='',
                         Text_part ''Analyze this media and generate an engaging social media caption for it.''],
              gc_max_tokens = 500\<rparr>"
    by (simp add: generate_POST_def truthy_def platformList_def toneInstruction_def
        contextInstruction_def user_content_def isVideo_def interpolate_def media_text_def)
  show "''Additional context: zzz''
       \<in> set (split_on newline
                (systemPrompt (''a'' @ [newline] @ ''Additional context: zzz'')
                   ''Use an engaging, professional tone.'' ''''))"
    by (rule injected_line)
  have "sublist ''Additional context: zzz''
      ((''- Create a caption that would perform well on '' @ ''a'' @ [newline]) @ ''Additional context: zzz'')"
    by (rule sublist_append_leftI)
  then have "sublist ''Additional context: zzz''
      (''- Create a caption that would perform well on '' @ ''a'' @ [newline] @ ''Additional context: zzz'')"
    by simp
  then show "sublist ''Additional context: zzz''
        (systemPrompt (''a'' @ [newline] @ ''Additional context: zzz'')
           ''Use an engaging, professional tone.'' '''')"
    by (rule sublist_trans) (rule sublist_platform_line)
qed

text \<open>
  C5, amended. For every caption-generation request that reaches the prompt (key
  configured, a media source given, \<open>platforms\<close> a list), the system prompt sent to the
  gateway contains the guideline "perform well on" followed by the platform keys joined with
  \<open>", "\<close>, or by \<open>social media\<close> when the list is empty; it contains
  \<open>Use a {tone} tone.\<close> when a tone is provided (there and not empty) and
  \<open>Use an engaging, professional tone.\<close> otherwise; it contains
  \<open>Additional context: {additionalContext}\<close> when a context is provided. In every such
  prompt the place of the template between the last guideline and the closing instruction
  holds \<open>Additional context: {additionalContext}\<close> when a context is provided and nothing
  otherwise. When the platform keys, the tone and the context hold no line feed, the prompt
  has a line that starts with \<open>Additional context: \<close> exactly when a context is provided,
  that line being \<open>Additional context: {additionalContext}\<close>.
\<close>

theorem caption_prompt_assembly:
  assumes "truthy api_key" and "truthy (mediaBase64 body) \<or> truthy (mediaUrl body)"
    and "platforms body = Some ps"
  shows "\<exists>c. generate_POST api_key (Some body) = Call c
     \<and> (ps \<noteq> [] \<longrightarrow> sublist (''perform well on '' @ join '', '' ps) (gc_system c))
     \<and> (ps = [] \<longrightarrow> sublist ''perform well on social media'' (gc_system c))
     \<and> (tone body = Some t \<and> t \<noteq> [] \<longrightarrow> sublist (''Use a '' @ t @ '' tone.'') (gc_system c))
     \<and> (\<not> truthy (tone body) \<longrightarrow> sublist ''Use an engaging, professional tone.'' (gc_system c))
     \<and> (additionalContext body = Some a \<and> a \<noteq> []
          \<longrightarrow> sublist (''Additional context: '' @ a) (gc_system c))
     \<and> (additionalContext body = Some a \<and> a \<noteq> []
          \<longrightarrow> suffix (''- Make it feel authentic, not overly promotional'' @ [newline]
                      @ (''Additional context: '' @ a) @ [newline, newline]
                      @ ''Respond with ONLY the caption text including hashtags. No explanations or alternatives.'')
                (gc_system c))
     \<and> (\<not> truthy (additionalContext body)
          \<longrightarrow> suffix (''- Make it feel authentic, not overly promotional'' @ [newline]
                      @ [] @ [newline, newline]
                      @ ''Respond with ONLY the caption text including hashtags. No explanations or alternatives.'')
                (gc_system c))
     \<and> ((\<forall>p\<in>set ps. newline \<notin> set p) \<and> newline \<notin> set (interpolate (tone body))
          \<and> newline \<notin> set (interpolate (additionalContext body))
          \<longrightarrow> ((\<exists>l\<in>set (split_on newline (gc_system c)). prefix ''Additional context: '' l)
                 \<longleftrightarrow> truthy (additionalContext body))
              \<and> (additionalContext body = Some a \<and> a \<noteq> []
                   \<longrightarrow> ''Additional context: '' @ a \<in> set (split_on newline (gc_system c))))"
proof -
  define pl where "pl = platformList ps"
  define ti where "ti = toneInstruction (tone body)"
  define ci where "ci = contextInstruction (additionalContext body)"
  define c where "c = \<lparr>gc_model = ''google/gemini-2.0-flash-001'', gc_system = systemPrompt pl ti ci,
                        gc_user = user_content body, gc_max_tokens = 500\<rparr>"
  have sent: "generate_POST api_key (Some body) = Call c"
    using generate_POST_valid [OF assms] by (simp add: c_def pl_def ti_def ci_def)
  have sys: "gc_system c = systemPrompt pl ti ci" by (simp add: c_def)
  have platform: "sublist (''perform well on '' @ pl) (gc_system c)"
  proof -
    have "sublist (''perform well on '' @ pl) (''- Create a caption that would '' @ ''perform well on '' @ pl)"
      by (rule sublist_append_leftI)
    then have "sublist (''perform well on '' @ pl) (''- Create a caption that would perform well on '' @ pl)"
      by simp
    then show ?thesis
      unfolding sys by (rule sublist_trans) (rule sublist_platform_line)
  qed
  have "ps \<noteq> [] \<Longrightarrow> pl = join '', '' ps" and "ps = [] \<Longrightarrow> pl = ''social media''"
    by (simp_all add: pl_def platformList_def)
  with platform
  have p1: "ps \<noteq> [] \<longrightarrow> sublist (''perform well on '' @ join '', '' ps) (gc_system c)"
    and p2: "ps = [] \<longrightarrow> sublist ''perform well on social media'' (gc_system c)"
    by auto
  have t1: "tone body = Some t \<and> t \<noteq> [] \<longrightarrow> sublist (''Use a '' @ t @ '' tone.'') (gc_system c)"
    using sublist_tone_line [of ti pl ci]
    by (auto simp: sys ti_def toneInstruction_def truthy_def interpolate_def)
  have t2: "\<not> truthy (tone body) \<longrightarrow> sublist ''Use an engaging, professional tone.'' (gc_system c)"
    using sublist_tone_line [of ti pl ci]
    by (auto simp: sys ti_def toneInstruction_def)
  have a1: "additionalContext body = Some a \<and> a \<noteq> []
          \<longrightarrow> sublist (''Additional context: '' @ a) (gc_system c)"
    using sublist_context_line [of ci pl ti]
    by (auto simp: sys ci_def contextInstruction_def truthy_def interpolate_def)
  have a2: "((\<exists>l\<in>set (split_on newline (gc_system c)). prefix ''Additional context: '' l)
                 \<longleftrightarrow> truthy (additionalContext body))
              \<and> (additionalContext body = Some a \<and> a \<noteq> []
                   \<longrightarrow> ''Additional context: '' @ a \<in> set (split_on newline (gc_system c)))"
    if single: "(\<forall>p\<in>set ps. newline \<notin> set p) \<and> newline \<notin> set (interpolate (tone body))
          \<and> newline \<notin> set (interpolate (additionalContext body))"
  proof -
    have npl: "newline \<notin> set pl"
      using single no_newline_join [of ps] by (simp add: pl_def platformList_def newline_def)
    have nti: "newline \<notin> set ti"
      using single by (simp add: ti_def toneInstruction_def newline_def)
    have nci: "newline \<notin> set ci"
      using single by (simp add: ci_def contextInstruction_def newline_def)
    have lines: "split_on newline (gc_system c) = systemPrompt_lines pl ti ci"
      unfolding sys using npl nti nci by (rule lines_systemPrompt)
    have "prefix ''Additional context: '' ci \<longleftrightarrow> truthy (additionalContext body)"
      by (simp add: ci_def contextInstruction_def)
    moreover have "additionalContext body = Some a \<and> a \<noteq> []
        \<longrightarrow> ''Additional context: '' @ a \<in> set (systemPrompt_lines pl ti ci)"
      by (auto simp: systemPrompt_lines_def ci_def contextInstruction_def truthy_def interpolate_def)
    ultimately show ?thesis
      unfolding lines context_line_iff by simp
  qed
  have slot: "suffix (''- Make it feel authentic, not overly promotional'' @ [newline] @ ci
        @ [newline, newline]
        @ ''Respond with ONLY the caption text including hashtags. No explanations or alternatives.'')
      (gc_system c)"
    unfolding sys by (rule suffix_context_slot)
  have s1: "additionalContext body = Some a \<and> a \<noteq> []
          \<longrightarrow> suffix (''- Make it feel authentic, not overly promotional'' @ [newline]
                      @ (''Additional context: '' @ a) @ [newline, newline]
                      @ ''Respond with ONLY the caption text including hashtags. No explanations or alternatives.'')
                (gc_system c)"
  proof (rule impI)
    assume "additionalContext body = Some a \<and> a \<noteq> []"
    then have eq: "ci = ''Additional context: '' @ a"
      by (simp add: ci_def contextInstruction_def truthy_def interpolate_def)
    show "suffix (''- Make it feel authentic, not overly promotional'' @ [newline]
                      @ (''Additional context: '' @ a) @ [newline, newline]
                      @ ''Respond with ONLY the caption text including hashtags. No explanations or alternatives.'')
                (gc_system c)"
      using slot unfolding eq .
  qed
  have s2: "\<not> truthy (additionalContext body)
          \<longrightarrow> suffix (''- Make it feel authentic, not overly promotional'' @ [newline]
                      @ [] @ [newline, newline]
                      @ ''Respond with ONLY the caption text including hashtags. No explanations or alternatives.'')
                (gc_system c)"
  proof (rule impI)
    assume "\<not> truthy (additionalContext body)"
    then have eq: "ci = []"
      by (simp add: ci_def contextInstruction_def)
    show "suffix (''- Make it feel authentic, not overly promotional'' @ [newline]
                      @ [] @ [newline, newline]
                      @ ''Respond with ONLY the caption text including hashtags. No explanations or alternatives.'')
                (gc_system c)"
      using slot unfolding eq .
  qed
  have a2': "(\<forall>p\<in>set ps. newline \<notin> set p) \<and> newline \<notin> set (interpolate (tone body))
          \<and> newline \<notin> set (interpolate (additionalContext body))
          \<longrightarrow> ((\<exists>l\<in>set (split_on newline (gc_system c)). prefix ''Additional context: '' l)
                 \<longleftrightarrow> truthy (additionalContext body))
              \<and> (additionalContext body = Some a \<and> a \<noteq> []
                   \<longrightarrow> ''Additional context: '' @ a \<in> set (split_on newline (gc_system c)))"
    using a2 by blast
  show ?thesis
    by (intro exI [of _ c] conjI; fact sent p1 p2 t1 t2 a1 s1 s2 a2')
qed

theorem caption_prompt_assembly_witness:
  "\<exists>c. generate_POST (Some ''key'')
          (Some \<lparr>mediaBase64 = Some ''aGk='', mediaMimeType = Some ''image/png'', mediaUrl = None,
                 platforms = Some [''instagram'', ''twitter''], tone = Some ''playful'',
                 additionalContext = Some ''launch day''\<rparr>) = Call c
     \<and> sublist ''instagram, twitter'' (gc_system c)
     \<and> sublist ''Use a playful tone.'' (gc_system c)
     \<and> sublist ''Additional context: launch day'' (gc_system c)
     \<and> ''Additional context: launch day'' \<in> set (split_on newline (gc_system c))"
proof -
  define r where "r = \<lparr>mediaBase64 = Some ''aGk='', mediaMimeType = Some ''image/png'',
      mediaUrl = None, platforms = Some [''instagram'', ''twitter''], tone = Some ''playful'',
      additionalContext = Some ''launch day''\<rparr>"
  have k: "truthy (Some ''key'')" by (simp add: truthy_def)
  have m: "truthy (mediaBase64 r) \<or> truthy (mediaUrl r)" by (simp add: r_def truthy_def)
  have p: "platforms r = Some [''instagram'', ''twitter'']" by (simp add: r_def)
  have t: "tone r = Some ''playful'' \<and> ''playful'' \<noteq> []" by (simp add: r_def)
  have a: "additionalContext r = Some ''launch day'' \<and> ''launch day'' \<noteq> []" by (simp add: r_def)
  have n: "(\<forall>p\<in>set [''instagram'', ''twitter'']. newline \<notin> set p)
      \<and> newline \<notin> set (interpolate (tone r)) \<and> newline \<notin> set (interpolate (additionalContext r))"
    by (simp add: r_def interpolate_def newline_def)
  have ne: "[''instagram'', ''twitter''] \<noteq> []" by simp
  obtain c where c: "generate_POST (Some ''key'') (Some r) = Call c"
    and c1: "sublist (''perform well on '' @ join '', '' [''instagram'', ''twitter'']) (gc_system c)"
    and c2: "sublist (''Use a '' @ ''playful'' @ '' tone.'') (gc_system c)"
    and c3: "sublist (''Additional context: '' @ ''launch day'') (gc_system c)"
    and c4: "''Additional context: '' @ ''launch day'' \<in> set (split_on newline (gc_system c))"
    using caption_prompt_assembly [OF k m p, of "''playful''" "''launch day''"] t a n ne
    by blast
  have "sublist ''instagram, twitter'' (''perform well on '' @ ''instagram, twitter'')"
    by (rule sublist_append_leftI)
  then have "sublist ''instagram, twitter'' (''perform well on '' @ join '', '' [''instagram'', ''twitter''])"
    by simp
  then have c1': "sublist ''instagram, twitter'' (gc_system c)"
    using c1 by (rule sublist_trans)
  have c2': "sublist ''Use a playful tone.'' (gc_system c)" using c2 by simp
  have c3': "sublist ''Additional context: launch day'' (gc_system c)" using c3 by simp
  have c4': "''Additional context: launch day'' \<in> set (split_on newline (gc_system c))"
    using c4 by simp
  show ?thesis
    using c c1' c2' c3' c4' unfolding r_def by blast
qed

text \<open>
  C9. A caption-generation request that leaves \<open>platforms\<close> out and supplies a media
  source, with the gateway key configured, is answered with status 500 and the body
  \<open>{ error: "Failed to generate content" }\<close>, not with a 400: reading
  \<open>platforms.length\<close> throws, so no prompt is built and the gateway is not called.
\<close>

theorem generate_without_platforms:
  assumes "truthy api_key" and "truthy (mediaBase64 body) \<or> truthy (mediaUrl body)"
    and "platforms body = None"
  shows "generate_POST api_key (Some body)
           = Respond 500 (JObj [(''error'', JStr ''Failed to generate content'')])
         \<and> (\<forall>c. generate_POST api_key (Some body) \<noteq> Call c)"
  using assms by (auto simp: generate_POST_def error_body_def)

theorem generate_without_platforms_witness:
  "truthy (Some ''key'')
   \<and> generate_POST (Some ''key'')
        (Some \<lparr>mediaBase64 = None, mediaMimeType = None,
               mediaUrl = Some ''https://example.com/a.png'', platforms = None, tone = None,
               additionalContext = None\<rparr>)
      = Respond 500 (JObj [(''error'', JStr ''Failed to generate content'')])"
proof -
  have k: "truthy (Some ''key'')" by (simp add: truthy_def)
  show ?thesis
    using k generate_without_platforms [OF k, of
        "\<lparr>mediaBase64 = None, mediaMimeType = None,
          mediaUrl = Some ''https://example.com/a.png'', platforms = None, tone = None,
          additionalContext = None\<rparr>"]
    by (simp add: truthy_def)
qed

text \<open>
  C10. A caption-generation request that supplies \<open>mediaBase64\<close> and leaves out both
  \<open>mediaMimeType\<close> and \<open>mediaUrl\<close> passes the media-source check (the answer is never a
  400), and the user message that goes to the gateway has no \<open>image_url\<close> part: it is the
  generic image-analysis text part alone.
\<close>

theorem base64_without_mime_type:
  assumes "truthy api_key" and "truthy (mediaBase64 body)"
    and "mediaMimeType body = None" and "mediaUrl body = None"
  shows "(\<forall>b. generate_POST api_key (Some body) \<noteq> Respond 400 b)
     \<and> (\<forall>c. generate_POST api_key (Some body) = Call c \<longrightarrow>
            gc_user c = [Text_part ''Analyze this media and generate an engaging social media caption for it.'']
            \<and> (\<forall>u. Image_url u \<notin> set (gc_user c)))
     \<and> (platforms body = Some ps \<longrightarrow> (\<exists>c. generate_POST api_key (Some body) = Call c))"
  using assms
  by (auto simp: generate_POST_def user_content_def isVideo_def media_text_def truthy_def
      split: option.splits)

theorem base64_without_mime_type_witness:
  "truthy (Some ''key'')
   \<and> (\<exists>c. generate_POST (Some ''key'')
        (Some \<lparr>mediaBase64 = Some ''aGk='', mediaMimeType = None, mediaUrl = None,
               platforms = Some [''twitter''], tone = None, additionalContext = None\<rparr>) = Call c
      \<and> gc_user c = [Text_part ''Analyze this media and generate an engaging social media caption for it.''])"
proof -
  have k: "truthy (Some ''key'')" by (simp add: truthy_def)
  show ?thesis
    using k base64_without_mime_type [OF k, of
        "\<lparr>mediaBase64 = Some ''aGk='', mediaMimeType = None, mediaUrl = None,
          platforms = Some [''twitter''], tone = None, additionalContext = None\<rparr>" "[''twitter'']"]
    by (simp add: truthy_def) blast
qed

section \<open>Properties of the Media Upload URL Service\<close>

lemma sanitizedFilename_nth:
  "i < length f \<Longrightarrow> sanitizedFilename f ! i = (if in_class (f ! i) then f ! i else CHR ''_'')"
  by (simp add: sanitizedFilename_def)

lemma length_sanitizedFilename: "length (sanitizedFilename f) = length f"
  by (simp add: sanitizedFilename_def)

text \<open>
  C7. For every upload-URL request with \<open>filename\<close> and \<open>contentType\<close> present (truthy,
  as the handler tests them) and the storage configured, the object path the handler asks a
  signed URL for is \<open>uploads/\<close>, the timestamp in decimal, \<open>-\<close>, and the filename in which
  every character of the class \<open>[A-Za-z0-9.-]\<close> is kept and every other character is an
  underscore; and the \<open>publicUrl\<close> it returns once the URL is signed is the storage base
  URL, then \<open>/storage/v1/object/public/media/\<close>, then that path.
\<close>

theorem presigned_object_path:
  assumes "supabase_url = Some base" and "base \<noteq> []" and "truthy service_key"
    and "filename body = Some f" and "f \<noteq> []" and "truthy (contentType body)"
  shows "\<exists>path s. presigned_url_POST supabase_url service_key (Some body) timestamp = Call path
     \<and> path = ''uploads/'' @ show_nat timestamp @ ''-'' @ s
     \<and> length s = length f
     \<and> (\<forall>i<length f. s ! i = (if in_class (f ! i) then f ! i else CHR ''_''))
     \<and> presigned_url_response supabase_url path (Signed signedUrl)
         = (200, JObj [(''uploadUrl'', JStr signedUrl),
                       (''publicUrl'', JStr (base @ ''/storage/v1/object/public/media/'' @ path))])"
proof -
  have call: "presigned_url_POST supabase_url service_key (Some body) timestamp
      = Call (filePath timestamp f)"
    using assms by (simp add: presigned_url_POST_def truthy_def interpolate_def)
  have path: "filePath timestamp f = ''uploads/'' @ show_nat timestamp @ ''-'' @ sanitizedFilename f"
    by (simp add: filePath_def)
  have resp: "presigned_url_response supabase_url (filePath timestamp f) (Signed signedUrl)
         = (200, JObj [(''uploadUrl'', JStr signedUrl),
                       (''publicUrl'', JStr (base @ ''/storage/v1/object/public/media/'' @ filePath timestamp f))])"
    using assms(1) by (simp add: presigned_url_response_def publicUrl_def interpolate_def)
  show ?thesis
    using call path resp length_sanitizedFilename [of f] sanitizedFilename_nth [of _ f]
    by blast
qed

theorem presigned_object_path_witness:
  "presigned_url_POST (Some ''https://proj.supabase.co'') (Some ''service-key'')
       (Some \<lparr>filename = Some ''my file (final)!!.png'', contentType = Some ''image/png''\<rparr>)
       1700000000000
     = Call ''uploads/1700000000000-my_file__final___.png''
   \<and> presigned_url_response (Some ''https://proj.supabase.co'')
       ''uploads/1700000000000-my_file__final___.png'' (Signed ''https://signed.example/u'')
     = (200, JObj [(''uploadUrl'', JStr ''https://signed.example/u''),
                   (''publicUrl'', JStr ''https://proj.supabase.co/storage/v1/object/public/media/uploads/1700000000000-my_file__final___.png'')])"
proof -
  define r where "r = \<lparr>filename = Some ''my file (final)!!.png'', contentType = Some ''image/png''\<rparr>"
  have k: "truthy (Some ''service-key'')" by (simp add: truthy_def)
  have f: "filename r = Some ''my file (final)!!.png''" by (simp add: r_def)
  have c: "truthy (contentType r)" by (simp add: r_def truthy_def)
  obtain path s where call: "presigned_url_POST (Some ''https://proj.supabase.co'')
        (Some ''service-key'') (Some r) 1700000000000 = Call path"
    and path: "path = ''uploads/'' @ show_nat 1700000000000 @ ''-'' @ s"
    and len: "length s = length ''my file (final)!!.png''"
    and nth: "\<forall>i<length ''my file (final)!!.png''.
        s ! i = (if in_class (''my file (final)!!.png'' ! i) then ''my file (final)!!.png'' ! i else CHR ''_'')"
    and resp: "presigned_url_response (Some ''https://proj.supabase.co'') path (Signed ''https://signed.example/u'')
         = (200, JObj [(''uploadUrl'', JStr ''https://signed.example/u''),
                       (''publicUrl'', JStr (''https://proj.supabase.co'' @ ''/storage/v1/object/public/media/'' @ path))])"
    using presigned_object_path [where timestamp = 1700000000000
        and signedUrl = "''https://signed.example/u''" and base = "''https://proj.supabase.co''"
        and supabase_url = "Some ''https://proj.supabase.co''", OF refl _ k f _ c]
    by auto
  have "path = filePath 1700000000000 ''my file (final)!!.png''"
    using call by (simp add: presigned_url_POST_def truthy_def interpolate_def r_def)
  then have p: "path = ''uploads/1700000000000-my_file__final___.png''"
    by (simp add: filePath_def sanitizedFilename_def in_class_def show_nat.simps)
  show ?thesis
    using call resp unfolding p r_def by simp
qed

section \<open>Properties of the composer\<close>

lemma isUploading_iff: "isUploading s \<longleftrightarrow> (\<exists>mf\<in>set (mediaFiles s). mf_uploading mf)"
  by (simp add: isUploading_def list_ex_iff)

lemma hasUploadErrors_iff:
  "hasUploadErrors s \<longleftrightarrow> (\<exists>mf\<in>set (mediaFiles s). truthy (mf_error mf))"
  by (simp add: hasUploadErrors_def list_ex_iff)

lemma hasContent_iff: "hasContent s \<longleftrightarrow> trim (content s) \<noteq> []"
  by (simp add: hasContent_def)

lemma set_uploadedMedia: "set (uploadedMedia s) = {mf \<in> set (mediaFiles s). spec_uploaded mf}"
  by (auto simp: uploadedMedia_def spec_uploaded_def)

lemma hasMedia_iff: "hasMedia s \<longleftrightarrow> (\<exists>mf\<in>set (mediaFiles s). spec_uploaded mf)"
proof -
  have "hasMedia s \<longleftrightarrow> set (uploadedMedia s) \<noteq> {}"
    by (simp add: hasMedia_def)
  then show ?thesis
    unfolding set_uploadedMedia by blast
qed

lemma spec_first_failing_eq:
  "spec_first_failing s =
     (if isUploading s then Some ''Please wait for media uploads to complete''
      else if \<not> hasContent s \<and> \<not> hasMedia s then Some ''Please enter some content or upload media''
      else if hasUploadErrors s \<and> \<not> hasContent s
      then Some ''Some media failed to upload. Please remove failed items or add text content.''
      else if selectedAccounts s = [] then Some ''Please select at least one account''
      else if publishMode s = Schedule \<and> (scheduledDate s = [] \<or> scheduledTime s = [])
      then Some ''Please select a date and time for scheduling''
      else None)"
  unfolding isUploading_iff hasUploadErrors_iff hasContent_iff hasMedia_iff
  by (auto simp: spec_first_failing_def spec_checks_def)

lemma handleSubmit_error:
  "error (fst (handleSubmit s tz)) = spec_first_failing s"
  unfolding spec_first_failing_eq by (auto simp: handleSubmit_def Let_def)

lemma handleSubmit_blocked:
  "snd (handleSubmit s tz) = None \<longleftrightarrow> spec_first_failing s \<noteq> None"
  unfolding spec_first_failing_eq by (auto simp: handleSubmit_def Let_def)

text \<open>
  C4. \<open>handleSubmit\<close> runs the five checks of the specification in the specification's
  order: the error it leaves is the message of the first check that fails (none when all
  pass), and it posts no request exactly when a check fails. So with a media file uploading
  and no account selected the error is the wait-for-uploads message, not the
  select-an-account message.
\<close>

theorem submit_validation_order:
  "error (fst (handleSubmit s tz)) = spec_first_failing s
   \<and> (snd (handleSubmit s tz) = None \<longleftrightarrow> spec_first_failing s \<noteq> None)
   \<and> ((\<exists>mf\<in>set (mediaFiles s). mf_uploading mf) \<and> selectedAccounts s = []
        \<longrightarrow> handleSubmit s tz
            = (s\<lparr>error := Some ''Please wait for media uploads to complete'', success := None\<rparr>,
               None))"
proof (intro conjI impI)
  show "error (fst (handleSubmit s tz)) = spec_first_failing s"
    by (rule handleSubmit_error)
  show "snd (handleSubmit s tz) = None \<longleftrightarrow> spec_first_failing s \<noteq> None"
    by (rule handleSubmit_blocked)
next
  assume "(\<exists>mf\<in>set (mediaFiles s). mf_uploading mf) \<and> selectedAccounts s = []"
  then have "isUploading s" by (simp add: isUploading_iff)
  then show "handleSubmit s tz
      = (s\<lparr>error := Some ''Please wait for media uploads to complete'', success := None\<rparr>, None)"
    by (simp add: handleSubmit_def)
qed

theorem submit_validation_order_witness:
  "(\<exists>mf\<in>set (mediaFiles
        \<lparr>accounts = [], selectedAccounts = [], content = ''hello'', loading = False,
         posting = False, error = None, success = None, publishMode = Now,
         scheduledDate = '''', scheduledTime = '''',
         mediaFiles = [\<lparr>mf_file = \<lparr>file_name = ''a.png'', file_type = ''image/png'', file_size = 1024\<rparr>,
                         mf_preview = ''blob:1'', mf_publicUrl = None, mf_uploading = True,
                         mf_progress = 0, mf_error = None\<rparr>],
         generating = False\<rparr>). mf_uploading mf)
   \<and> error (fst (handleSubmit
        \<lparr>accounts = [], selectedAccounts = [], content = ''hello'', loading = False,
         posting = False, error = None, success = None, publishMode = Now,
         scheduledDate = '''', scheduledTime = '''',
         mediaFiles = [\<lparr>mf_file = \<lparr>file_name = ''a.png'', file_type = ''image/png'', file_size = 1024\<rparr>,
                         mf_preview = ''blob:1'', mf_publicUrl = None, mf_uploading = True,
                         mf_progress = 0, mf_error = None\<rparr>],
         generating = False\<rparr> ''UTC''))
      = Some ''Please wait for media uploads to complete''
   \<and> snd (handleSubmit
        \<lparr>accounts = [], selectedAccounts = [], content = ''hello'', loading = False,
         posting = False, error = None, success = None, publishMode = Now,
         scheduledDate = '''', scheduledTime = '''',
         mediaFiles = [\<lparr>mf_file = \<lparr>file_name = ''a.png'', file_type = ''image/png'', file_size = 1024\<rparr>,
                         mf_preview = ''blob:1'', mf_publicUrl = None, mf_uploading = True,
                         mf_progress = 0, mf_error = None\<rparr>],
         generating = False\<rparr> ''UTC'') = None"
proof -
  define s where "s = \<lparr>accounts = [], selectedAccounts = [], content = ''hello'', loading = False,
         posting = False, error = None, success = None, publishMode = Now,
         scheduledDate = '''', scheduledTime = '''',
         mediaFiles = [\<lparr>mf_file = \<lparr>file_name = ''a.png'', file_type = ''image/png'', file_size = 1024\<rparr>,
                         mf_preview = ''blob:1'', mf_publicUrl = None, mf_uploading = True,
                         mf_progress = 0, mf_error = None\<rparr>],
         generating = False\<rparr>"
  have h: "(\<exists>mf\<in>set (mediaFiles s). mf_uploading mf) \<and> selectedAccounts s = []"
    by (simp add: s_def)
  have "handleSubmit s ''UTC''
      = (s\<lparr>error := Some ''Please wait for media uploads to complete'', success := None\<rparr>, None)"
    using submit_validation_order [of s "''UTC''"] h by blast
  then have "error (fst (handleSubmit s ''UTC'')) = Some ''Please wait for media uploads to complete''"
    and "snd (handleSubmit s ''UTC'') = None"
    by simp_all
  with h show ?thesis unfolding s_def by blast
qed

lemma handleSubmit_Some:
  "handleSubmit s tz = (s', Some body) \<Longrightarrow> body = submit_postData s tz"
  by (auto simp: handleSubmit_def Let_def split: if_splits)

lemma field_submit_mediaUrls:
  "field (submit_postData s tz) ''mediaUrls'' =
     (if hasMedia s
      then Some (JArr (map (\<lambda>mf. case mf_publicUrl mf of Some u \<Rightarrow> JStr u | None \<Rightarrow> JNull)
                           (uploadedMedia s)))
      else None)"
  by (simp add: submit_postData_def field_def)

text \<open>
  C8. Whenever \<open>handleSubmit\<close> posts a request, every element of the \<open>mediaUrls\<close> list in
  its body is the \<open>publicUrl\<close> of an entry of \<open>mediaFiles\<close> that has a \<open>publicUrl\<close> set, is
  not uploading and has no error; and the body has a \<open>mediaUrls\<close> field only when some
  entry satisfies the three conditions (the field is then a non-empty list).
\<close>

theorem submitted_media_urls:
  assumes "handleSubmit s tz = (s', Some body)"
  shows "(\<forall>urls. field body ''mediaUrls'' = Some urls \<longrightarrow>
            (\<exists>us. urls = JArr us \<and> us \<noteq> []
               \<and> (\<forall>u\<in>set us. \<exists>mf\<in>set (mediaFiles s). \<exists>url.
                      u = JStr url \<and> mf_publicUrl mf = Some url \<and> url \<noteq> []
                      \<and> \<not> mf_uploading mf \<and> \<not> truthy (mf_error mf))))
     \<and> (field body ''mediaUrls'' \<noteq> None \<longrightarrow>
            (\<exists>mf\<in>set (mediaFiles s).
                truthy (mf_publicUrl mf) \<and> \<not> mf_uploading mf \<and> \<not> truthy (mf_error mf)))"
proof -
  have body: "body = submit_postData s tz"
    using assms by (rule handleSubmit_Some)
  have elems: "\<exists>mf\<in>set (mediaFiles s). \<exists>url.
        u = JStr url \<and> mf_publicUrl mf = Some url \<and> url \<noteq> []
        \<and> \<not> mf_uploading mf \<and> \<not> truthy (mf_error mf)"
    if "u \<in> set (map (\<lambda>mf. case mf_publicUrl mf of Some u \<Rightarrow> JStr u | None \<Rightarrow> JNull) (uploadedMedia s))"
    for u
  proof -
    from that obtain mf where mf: "mf \<in> set (uploadedMedia s)"
      and u: "u = (case mf_publicUrl mf of Some u \<Rightarrow> JStr u | None \<Rightarrow> JNull)"
      by auto
    from mf have "mf \<in> set (mediaFiles s)" and "truthy (mf_publicUrl mf)"
      and "\<not> mf_uploading mf" and "\<not> truthy (mf_error mf)"
      by (simp_all add: uploadedMedia_def)
    then show ?thesis
      using u by (auto simp: truthy_def split: option.splits)
  qed
  have nonempty: "hasMedia s \<Longrightarrow> uploadedMedia s \<noteq> []"
    by (simp add: hasMedia_def)
  have some: "hasMedia s \<Longrightarrow> \<exists>mf\<in>set (mediaFiles s).
      truthy (mf_publicUrl mf) \<and> \<not> mf_uploading mf \<and> \<not> truthy (mf_error mf)"
    by (simp add: hasMedia_iff spec_uploaded_def)
  show ?thesis
    unfolding body field_submit_mediaUrls
    using elems nonempty some by (auto split: if_splits)
qed

theorem submitted_media_urls_witness:
  "snd (handleSubmit
        \<lparr>accounts = [], selectedAccounts = [''twitter''], content = '' hi '', loading = False,
         posting = False, error = None, success = None, publishMode = Now,
         scheduledDate = '''', scheduledTime = '''',
         mediaFiles =
           [\<lparr>mf_file = \<lparr>file_name = ''a.png'', file_type = ''image/png'', file_size = 1024\<rparr>,
             mf_preview = ''blob:1'', mf_publicUrl = Some ''https://cdn.example/a.png'',
             mf_uploading = False, mf_progress = 100, mf_error = None\<rparr>,
            \<lparr>mf_file = \<lparr>file_name = ''b.png'', file_type = ''image/png'', file_size = 2048\<rparr>,
             mf_preview = ''blob:2'', mf_publicUrl = None,
             mf_uploading = False, mf_progress = 0, mf_error = Some ''Upload failed: 500''\<rparr>],
         generating = False\<rparr> ''UTC'')
     = Some [(''accountIds'', JArr [JStr ''twitter'']), (''content'', JStr ''hi''),
             (''mediaUrls'', JArr [JStr ''https://cdn.example/a.png'']),
             (''publishNow'', JBool True)]
   \<and> (\<exists>mf\<in>set (mediaFiles
        \<lparr>accounts = [], selectedAccounts = [''twitter''], content = '' hi '', loading = False,
         posting = False, error = None, success = None, publishMode = Now,
         scheduledDate = '''', scheduledTime = '''',
         mediaFiles =
           [\<lparr>mf_file = \<lparr>file_name = ''a.png'', file_type = ''image/png'', file_size = 1024\<rparr>,
             mf_preview = ''blob:1'', mf_publicUrl = Some ''https://cdn.example/a.png'',
             mf_uploading = False, mf_progress = 100, mf_error = None\<rparr>,
            \<lparr>mf_file = \<lparr>file_name = ''b.png'', file_type = ''image/png'', file_size = 2048\<rparr>,
             mf_preview = ''blob:2'', mf_publicUrl = None,
             mf_uploading = False, mf_progress = 0, mf_error = Some ''Upload failed: 500''\<rparr>],
         generating = False\<rparr>).
         truthy (mf_publicUrl mf) \<and> \<not> mf_uploading mf \<and> \<not> truthy (mf_error mf))"
proof -
  define s where "s = \<lparr>accounts = [], selectedAccounts = [''twitter''], content = '' hi '', loading = False,
         posting = False, error = None, success = None, publishMode = Now,
         scheduledDate = '''', scheduledTime = '''',
         mediaFiles =
           [\<lparr>mf_file = \<lparr>file_name = ''a.png'', file_type = ''image/png'', file_size = 1024\<rparr>,
             mf_preview = ''blob:1'', mf_publicUrl = Some ''https://cdn.example/a.png'',
             mf_uploading = False, mf_progress = 100, mf_error = None\<rparr>,
            \<lparr>mf_file = \<lparr>file_name = ''b.png'', file_type = ''image/png'', file_size = 2048\<rparr>,
             mf_preview = ''blob:2'', mf_publicUrl = None,
             mf_uploading = False, mf_progress = 0, mf_error = Some ''Upload failed: 500''\<rparr>],
         generating = False\<rparr>"
  define body where "body = [(''accountIds'', JArr [JStr ''twitter'']), (''content'', JStr ''hi''),
             (''mediaUrls'', JArr [JStr ''https://cdn.example/a.png'']),
             (''publishNow'', JBool True)]"
  have t: "trim (content s) = ''hi''"
    by (simp add: s_def trim_def is_space_def)
  have u: "uploadedMedia s =
      [\<lparr>mf_file = \<lparr>file_name = ''a.png'', file_type = ''image/png'', file_size = 1024\<rparr>,
        mf_preview = ''blob:1'', mf_publicUrl = Some ''https://cdn.example/a.png'',
        mf_uploading = False, mf_progress = 100, mf_error = None\<rparr>]"
    by (simp add: s_def uploadedMedia_def truthy_def)
  have iu: "\<not> isUploading s" by (simp add: s_def isUploading_def)
  have hc: "hasContent s" by (simp add: hasContent_def t)
  have hm: "hasMedia s" by (simp add: hasMedia_def u)
  have sel: "selectedAccounts s = [''twitter'']" and pm: "publishMode s = Now"
    by (simp_all add: s_def)
  have pd: "submit_postData s ''UTC'' = body"
    by (simp add: submit_postData_def hc hm t u sel pm strings_def body_def)
  have run: "handleSubmit s ''UTC'' = (s\<lparr>error := None, success := None, posting := True\<rparr>, Some body)"
    by (simp add: handleSubmit_def iu hc hm sel pm pd)
  have f: "field body ''mediaUrls'' \<noteq> None"
    by (simp add: body_def field_def)
  have "\<exists>mf\<in>set (mediaFiles s).
      truthy (mf_publicUrl mf) \<and> \<not> mf_uploading mf \<and> \<not> truthy (mf_error mf)"
    using submitted_media_urls [OF run] f by blast
  moreover have "snd (handleSubmit s ''UTC'') = Some body"
    using run by simp
  ultimately show ?thesis
    unfolding s_def body_def by blast
qed

lemma show_nat_200: "show_nat 200 = ''200''" and show_nat_20: "show_nat 20 = ''20''"
  by (simp_all add: show_nat.simps)

lemma too_large_message_video:
  "prefix ''video/'' (file_type f) \<Longrightarrow>
   too_large_message f = ''Video is too large (max 200MB). Please use a smaller file.''"
  by (simp add: too_large_message_def maxSizeMB_def show_nat_200)

lemma too_large_message_image:
  "\<not> prefix ''video/'' (file_type f) \<Longrightarrow>
   too_large_message f = ''Image is too large (max 20MB). Please use a smaller file.''"
  by (simp add: too_large_message_def maxSizeMB_def show_nat_20)

lemma generateContent_too_large:
  assumes "mediaFiles s = mediaFile # rest"
    and "file_size (mf_file mediaFile) > maxSizeMB (mf_file mediaFile) * 1024 * 1024"
  shows "generateContent s read
     = (s\<lparr>generating := False, error := Some (too_large_message (mf_file mediaFile))\<rparr>, None)"
  using assms by (simp add: generateContent_def Let_def)

lemma generateContent_size_ok:
  assumes "mediaFiles s = mediaFile # rest"
    and "file_size (mf_file mediaFile) \<le> maxSizeMB (mf_file mediaFile) * 1024 * 1024"
  shows "(read = None \<longrightarrow> generateContent s read
            = (s\<lparr>generating := False, error := Some ''Failed to generate content''\<rparr>, None))
     \<and> (read \<noteq> None \<longrightarrow> (\<exists>rq. generateContent s read
            = (s\<lparr>generating := True, error := None\<rparr>, Some rq)))"
  using assms by (auto simp: generateContent_def Let_def)

text \<open>
  C6. In \<open>generateContent\<close>, with \<open>mediaFile\<close> the first attached media file: a video
  (MIME type starting with \<open>video/\<close>) of more than 200 MB is rejected with the error
  \<open>Video is too large (max 200MB). Please use a smaller file.\<close> and no request is made; a
  file that is not a video and has more than 20 MB is rejected with
  \<open>Image is too large (max 20MB). Please use a smaller file.\<close> and no request is made; a
  video of at most 200 MB and another file of at most 20 MB pass the size check: the file is
  read and, when the read succeeds, the request is posted. A megabyte is \<open>1024 * 1024\<close>
  bytes.
\<close>

theorem caption_size_ceiling:
  assumes "mediaFiles s = mediaFile # rest" and "f = mf_file mediaFile"
  shows "(prefix ''video/'' (file_type f) \<and> file_size f > 200 * 1024 * 1024 \<longrightarrow>
            generateContent s read
              = (s\<lparr>generating := False,
                    error := Some ''Video is too large (max 200MB). Please use a smaller file.''\<rparr>,
                 None))
     \<and> (\<not> prefix ''video/'' (file_type f) \<and> file_size f > 20 * 1024 * 1024 \<longrightarrow>
            generateContent s read
              = (s\<lparr>generating := False,
                    error := Some ''Image is too large (max 20MB). Please use a smaller file.''\<rparr>,
                 None))
     \<and> ((prefix ''video/'' (file_type f) \<and> file_size f \<le> 200 * 1024 * 1024
          \<or> \<not> prefix ''video/'' (file_type f) \<and> file_size f \<le> 20 * 1024 * 1024) \<longrightarrow>
            (read = None \<longrightarrow> generateContent s read
                = (s\<lparr>generating := False, error := Some ''Failed to generate content''\<rparr>, None))
            \<and> (read \<noteq> None \<longrightarrow> (\<exists>rq. generateContent s read
                = (s\<lparr>generating := True, error := None\<rparr>, Some rq))))"
proof (intro conjI impI)
  assume h: "prefix ''video/'' (file_type f) \<and> file_size f > 200 * 1024 * 1024"
  then have "file_size (mf_file mediaFile) > maxSizeMB (mf_file mediaFile) * 1024 * 1024"
    using assms(2) by (simp add: maxSizeMB_def)
  from generateContent_too_large [OF assms(1) this] h assms(2)
  show "generateContent s read
      = (s\<lparr>generating := False,
            error := Some ''Video is too large (max 200MB). Please use a smaller file.''\<rparr>, None)"
    by (simp add: too_large_message_video)
next
  assume h: "\<not> prefix ''video/'' (file_type f) \<and> file_size f > 20 * 1024 * 1024"
  then have "file_size (mf_file mediaFile) > maxSizeMB (mf_file mediaFile) * 1024 * 1024"
    using assms(2) by (simp add: maxSizeMB_def)
  from generateContent_too_large [OF assms(1) this] h assms(2)
  show "generateContent s read
      = (s\<lparr>generating := False,
            error := Some ''Image is too large (max 20MB). Please use a smaller file.''\<rparr>, None)"
    by (simp add: too_large_message_image)
next
  assume h: "prefix ''video/'' (file_type f) \<and> file_size f \<le> 200 * 1024 * 1024
          \<or> \<not> prefix ''video/'' (file_type f) \<and> file_size f \<le> 20 * 1024 * 1024"
  then have ok: "file_size (mf_file mediaFile) \<le> maxSizeMB (mf_file mediaFile) * 1024 * 1024"
    using assms(2) by (auto simp: maxSizeMB_def)
  {
    assume "read = None"
    then show "generateContent s read
        = (s\<lparr>generating := False, error := Some ''Failed to generate content''\<rparr>, None)"
      using generateContent_size_ok [OF assms(1) ok] by blast
  }
  {
    assume "read \<noteq> None"
    then show "\<exists>rq. generateContent s read = (s\<lparr>generating := True, error := None\<rparr>, Some rq)"
      using generateContent_size_ok [OF assms(1) ok] by blast
  }
qed

theorem caption_size_ceiling_witness:
  "generateContent
      (initial\<lparr>mediaFiles := [selected_file \<lparr>file_name = ''clip.mp4'', file_type = ''video/mp4'',
                                               file_size = 210 * 1024 * 1024\<rparr> ''blob:1'']\<rparr>)
      (Some ''data:video/mp4;base64,AAAA'')
     = (initial\<lparr>mediaFiles := [selected_file \<lparr>file_name = ''clip.mp4'', file_type = ''video/mp4'',
                                               file_size = 210 * 1024 * 1024\<rparr> ''blob:1''],
                generating := False,
                error := Some ''Video is too large (max 200MB). Please use a smaller file.''\<rparr>,
        None)
   \<and> generateContent
      (initial\<lparr>mediaFiles := [selected_file \<lparr>file_name = ''photo.png'', file_type = ''image/png'',
                                               file_size = 25 * 1024 * 1024\<rparr> ''blob:2'']\<rparr>)
      (Some ''data:image/png;base64,AAAA'')
     = (initial\<lparr>mediaFiles := [selected_file \<lparr>file_name = ''photo.png'', file_type = ''image/png'',
                                               file_size = 25 * 1024 * 1024\<rparr> ''blob:2''],
                generating := False,
                error := Some ''Image is too large (max 20MB). Please use a smaller file.''\<rparr>,
        None)
   \<and> (\<exists>rq. generateContent
      (initial\<lparr>mediaFiles := [selected_file \<lparr>file_name = ''clip.mp4'', file_type = ''video/mp4'',
                                               file_size = 150 * 1024 * 1024\<rparr> ''blob:3'']\<rparr>)
      (Some ''data:video/mp4;base64,AAAA'')
     = (initial\<lparr>mediaFiles := [selected_file \<lparr>file_name = ''clip.mp4'', file_type = ''video/mp4'',
                                               file_size = 150 * 1024 * 1024\<rparr> ''blob:3''],
                generating := True, error := None\<rparr>,
        Some rq))
   \<and> (\<exists>rq. generateContent
      (initial\<lparr>mediaFiles := [selected_file \<lparr>file_name = ''photo.png'', file_type = ''image/png'',
                                               file_size = 15 * 1024 * 1024\<rparr> ''blob:4'']\<rparr>)
      (Some ''data:image/png;base64,AAAA'')
     = (initial\<lparr>mediaFiles := [selected_file \<lparr>file_name = ''photo.png'', file_type = ''image/png'',
                                               file_size = 15 * 1024 * 1024\<rparr> ''blob:4''],
                generating := True, error := None\<rparr>,
        Some rq))"
proof (intro conjI)
  let ?big_video = "\<lparr>file_name = ''clip.mp4'', file_type = ''video/mp4'', file_size = 210 * 1024 * 1024\<rparr>"
  let ?big_image = "\<lparr>file_name = ''photo.png'', file_type = ''image/png'', file_size = 25 * 1024 * 1024\<rparr>"
  let ?video = "\<lparr>file_name = ''clip.mp4'', file_type = ''video/mp4'', file_size = 150 * 1024 * 1024\<rparr>"
  let ?image = "\<lparr>file_name = ''photo.png'', file_type = ''image/png'', file_size = 15 * 1024 * 1024\<rparr>"
  have m: "mediaFiles (initial\<lparr>mediaFiles := [mf]\<rparr>) = mf # []" for mf
    by simp
  have f: "g = mf_file (selected_file g p)" for g p
    by (simp add: selected_file_def)
  show "generateContent (initial\<lparr>mediaFiles := [selected_file ?big_video ''blob:1'']\<rparr>)
      (Some ''data:video/mp4;base64,AAAA'')
     = (initial\<lparr>mediaFiles := [selected_file ?big_video ''blob:1''],
                generating := False,
                error := Some ''Video is too large (max 200MB). Please use a smaller file.''\<rparr>,
        None)"
    using caption_size_ceiling [OF m f, of ?big_video "''blob:1''" "Some ''data:video/mp4;base64,AAAA''"]
    by simp
  show "generateContent (initial\<lparr>mediaFiles := [selected_file ?big_image ''blob:2'']\<rparr>)
      (Some ''data:image/png;base64,AAAA'')
     = (initial\<lparr>mediaFiles := [selected_file ?big_image ''blob:2''],
                generating := False,
                error := Some ''Image is too large (max 20MB). Please use a smaller file.''\<rparr>,
        None)"
    using caption_size_ceiling [OF m f, of ?big_image "''blob:2''" "Some ''data:image/png;base64,AAAA''"]
    by simp
  show "\<exists>rq. generateContent (initial\<lparr>mediaFiles := [selected_file ?video ''blob:3'']\<rparr>)
      (Some ''data:video/mp4;base64,AAAA'')
     = (initial\<lparr>mediaFiles := [selected_file ?video ''blob:3''],
                generating := True, error := None\<rparr>,
        Some rq)"
    using caption_size_ceiling [OF m f, of ?video "''blob:3''" "Some ''data:video/mp4;base64,AAAA''"]
    by simp
  show "\<exists>rq. generateContent (initial\<lparr>mediaFiles := [selected_file ?image ''blob:4'']\<rparr>)
      (Some ''data:image/png;base64,AAAA'')
     = (initial\<lparr>mediaFiles := [selected_file ?image ''blob:4''],
                generating := True, error := None\<rparr>,
        Some rq)"
    using caption_size_ceiling [OF m f, of ?image "''blob:4''" "Some ''data:image/png;base64,AAAA''"]
    by simp
qed

subsection \<open>The avatar of an account card\<close>

lemma accountName_profilePictureUrl:
  "accountName (account\<lparr>acc_profilePictureUrl := u\<rparr>) = accountName account"
  by (simp add: accountName_def)

text \<open>
  C2, as stated, fails. An account that has no \<open>profilePicture\<close> and has the legacy
  \<open>profilePictureUrl\<close> set gets the initial badge, not an image: the card tests
  \<open>account.profilePicture\<close> alone.
\<close>

theorem legacy_avatar_counterexample:
  "account_avatar
     \<lparr>acc_underscore_id = Some ''a1'', acc_id = None, acc_platform = Some ''twitter'',
      acc_displayName = Some ''Ada'', acc_name = None, acc_username = None,
      acc_profilePicture = None, acc_profilePictureUrl = Some ''https://cdn.example/ada.png'',
      acc_isActive = None\<rparr>
     = Initial_badge (Some ''twitter'') ''Ada''
   \<and> account_avatar
     \<lparr>acc_underscore_id = Some ''a1'', acc_id = None, acc_platform = Some ''twitter'',
      acc_displayName = Some ''Ada'', acc_name = None, acc_username = None,
      acc_profilePicture = None, acc_profilePictureUrl = Some ''https://cdn.example/ada.png'',
      acc_isActive = None\<rparr>
     \<noteq> Image ''https://cdn.example/ada.png'' ''Ada''"
  by (simp add: account_avatar_def accountName_def js_or_def truthy_def interpolate_def)

text \<open>
  C2, amended. For every account the card shows the provider-supplied image exactly when
  \<open>profilePicture\<close> is truthy, with \<open>profilePicture\<close> as its source and the account name
  as its alternative text; otherwise it shows the initial badge. The legacy field
  \<open>profilePictureUrl\<close> is never consulted: whatever it holds, the avatar is the same.
\<close>

theorem avatar_from_profilePicture:
  "(truthy (acc_profilePicture account) \<longrightarrow>
      account_avatar account = Image (interpolate (acc_profilePicture account)) (accountName account))
   \<and> (\<not> truthy (acc_profilePicture account) \<longrightarrow>
      account_avatar account = Initial_badge (acc_platform account) (accountName account))
   \<and> account_avatar (account\<lparr>acc_profilePictureUrl := u\<rparr>) = account_avatar account"
  by (simp add: account_avatar_def accountName_profilePictureUrl)

theorem avatar_from_profilePicture_witness:
  "truthy (Some ''https://cdn.example/ada.png'')
   \<and> account_avatar
     \<lparr>acc_underscore_id = Some ''a1'', acc_id = None, acc_platform = Some ''twitter'',
      acc_displayName = None, acc_name = Some ''Ada L.'', acc_username = Some ''ada'',
      acc_profilePicture = Some ''https://cdn.example/ada.png'', acc_profilePictureUrl = None,
      acc_isActive = None\<rparr>
     = Image ''https://cdn.example/ada.png'' ''Ada L.''
   \<and> \<not> truthy None
   \<and> account_avatar
     \<lparr>acc_underscore_id = Some ''a1'', acc_id = None, acc_platform = Some ''twitter'',
      acc_displayName = None, acc_name = Some ''Ada L.'', acc_username = Some ''ada'',
      acc_profilePicture = None, acc_profilePictureUrl = Some ''https://cdn.example/old.png'',
      acc_isActive = None\<rparr>
     = Initial_badge (Some ''twitter'') ''Ada L.''"
proof -
  have n: "accountName \<lparr>acc_underscore_id = Some ''a1'', acc_id = None, acc_platform = Some ''twitter'',
      acc_displayName = None, acc_name = Some ''Ada L.'', acc_username = Some ''ada'',
      acc_profilePicture = p, acc_profilePictureUrl = q, acc_isActive = None\<rparr> = ''Ada L.''" for p q
    by (simp add: accountName_def js_or_def truthy_def interpolate_def)
  have t: "truthy (Some ''https://cdn.example/ada.png'')" and f: "\<not> truthy None"
    by (simp_all add: truthy_def)
  show ?thesis
    using t f n
      avatar_from_profilePicture [of "\<lparr>acc_underscore_id = Some ''a1'', acc_id = None,
        acc_platform = Some ''twitter'', acc_displayName = None, acc_name = Some ''Ada L.'',
        acc_username = Some ''ada'', acc_profilePicture = Some ''https://cdn.example/ada.png'',
        acc_profilePictureUrl = None, acc_isActive = None\<rparr>"]
      avatar_from_profilePicture [of "\<lparr>acc_underscore_id = Some ''a1'', acc_id = None,
        acc_platform = Some ''twitter'', acc_displayName = None, acc_name = Some ''Ada L.'',
        acc_username = Some ''ada'', acc_profilePicture = None,
        acc_profilePictureUrl = Some ''https://cdn.example/old.png'', acc_isActive = None\<rparr>"]
    by (simp add: interpolate_def)
qed

end
